theory Spec2Isabelle
  imports Main "HOL-Library.AList"
begin

section \<open>Remote GraphQL validation (graphql/schema/remote.go)\<close>

text \<open>
  A shallow embedding of \<^verbatim>\<open>validateRemoteGraphql\<close> and the functions it calls. Go
  pointers that may be nil are options, a returned \<^verbatim>\<open>error\<close> and a run-time panic are
  values of the type \<open>fault\<close>, Go maps that the code ranges over are association lists
  with one entry per key, and the order in which \<^verbatim>\<open>range\<close> visits a map (unspecified in
  Go) is a parameter \<open>ord\<close> of the functions that range over a map.
\<close>

subsection \<open>Errors and panics\<close>

text \<open>The run-time panics the code can raise.\<close>

datatype panic =
    NilPointerDereference
  | IndexOutOfRange
  | SliceBoundsOutOfRange
  | InterfaceConversion

text \<open>
  One constructor for each \<^verbatim>\<open>errors.Errorf\<close> of the file, with the arguments of the format
  string in their order, and one for an error of the introspection request.
\<close>

datatype error =
    IntrospectionError string
  | OperationNotAllowed string
  | NotPresentInRemote string string
  | ReturnTypeMismatch string string string string
  | ArgNotPresentInRemote string string string string
  | VariableMissing string string string
  | ArgTypeMismatch string string string string string
  | RequiredArgMissing string string string
  | RemoteTypeNotFound string
  | LocalTypeNotFound string
  | LocalFieldNotFound string string string
  | FieldTypeMismatch string string string string

datatype fault = Err error | Panic panic

text \<open>The message of an error, as the format strings of the source build it.\<close>

fun error_message :: "error \<Rightarrow> string" where
  "error_message (IntrospectionError msg) = msg"
| "error_message (OperationNotAllowed operationType) =
     ''found '' @ operationType @ '' operation, it can only have query/mutation.''"
| "error_message (NotPresentInRemote operationType name) =
     ''given '' @ operationType @ '': '' @ name @ '' is not present in remote schema.''"
| "error_message (ReturnTypeMismatch operationType name expectedReturnType gotReturnType) =
     ''given '' @ operationType @ '': '' @ name @ '': return type mismatch; expected: ''
       @ expectedReturnType @ '', got: '' @ gotReturnType @ ''.''"
| "error_message (ArgNotPresentInRemote operationType name givenArgName operationType') =
     ''given '' @ operationType @ '': '' @ name @ '': arg '' @ givenArgName
       @ '' not present in remote '' @ operationType' @ ''.''"
| "error_message (VariableMissing operationType name var) =
     ''given '' @ operationType @ '': '' @ name @ '': variable '' @ var
       @ '' is missing in given context.''"
| "error_message (ArgTypeMismatch operationType name var expectedArgType gotArgType) =
     ''given '' @ operationType @ '': '' @ name @ '': type mismatch for variable '' @ var
       @ ''; expected: '' @ expectedArgType @ '', got: '' @ gotArgType @ ''.''"
| "error_message (RequiredArgMissing operationType name remoteArgName) =
     ''given '' @ operationType @ '': '' @ name @ '': required arg '' @ remoteArgName
       @ '' is missing.''"
| "error_message (RemoteTypeNotFound arg) =
     ''Unable to find the type '' @ arg @ '' on the remote schema''"
| "error_message (LocalTypeNotFound typeName) =
     ''Unable to find remote type '' @ typeName @ '' in the local schema''"
| "error_message (LocalFieldNotFound fieldName localTypeName localTypeName') =
     fieldName @ '' field for the remote type '' @ localTypeName
       @ '' is not present in the local type '' @ localTypeName'"
| "error_message (FieldTypeMismatch fieldName remoteType localType typeName) =
     ''expected type for the field '' @ fieldName @ '' is '' @ remoteType @ '' but got ''
       @ localType @ '' in type '' @ typeName"

subsection \<open>The introspected (remote) schema\<close>

text \<open>
  The structs that the introspection response is decoded into. \<^verbatim>\<open>*GqlType\<close> is a
  pointer and may be nil. The fields of type \<^verbatim>\<open>interface{}\<close> that no function reads
  (\<^verbatim>\<open>Interfaces\<close>, \<^verbatim>\<open>EnumValues\<close>, \<^verbatim>\<open>PossibleTypes\<close>) and the directives are left out;
  a default value and a deprecation reason are kept as optional strings.
\<close>

datatype GqlType = GqlType (Kind: string) (Name: string) (OfType: "GqlType option")

datatype Args = Args (Name: string) (Type: "GqlType option") (DefaultValue: "string option")

datatype GqlField = GqlField (Name: string) (Args: "Args list") (Type: "GqlType option")
  (IsDeprecated: bool) (DeprecationReason: "string option")

datatype Types = Types (Kind: string) (Name: string) (Fields: "GqlField list")
  (InputFields: "GqlField list")

datatype IntrospectionQueryType = IntrospectionQueryType (Name: string)

datatype IntrospectionSchema = IntrospectionSchema (QueryType: IntrospectionQueryType)
  (MutationType: IntrospectionQueryType) (SubscriptionType: IntrospectionQueryType)
  (Types: "Types list")

datatype Data = Data (Schema: IntrospectionSchema)

datatype IntrospectedSchema = IntrospectedSchema (Data: Data)

text \<open>
  \<^verbatim>\<open>func (t *GqlType) String() string\<close>: the nil receiver renders as the empty string;
  \<^verbatim>\<open>fmt.Sprintf("[%s]", s)\<close> and \<^verbatim>\<open>fmt.Sprintf("%s!", s)\<close> are concatenations.
\<close>

fun GqlType_String :: "GqlType option \<Rightarrow> string" where
  "GqlType_String None = []"
| "GqlType_String (Some (GqlType kind name ofType)) =
     (if kind = ''LIST'' then ''['' @ GqlType_String ofType @ '']''
      else if kind = ''NON_NULL'' then GqlType_String ofType @ ''!''
      else name)"

text \<open>
  \<^verbatim>\<open>func (t *GqlType) NamedType() string\<close>: reading \<^verbatim>\<open>t.Name\<close> through a nil receiver
  panics.
\<close>

fun GqlType_NamedType :: "GqlType option \<Rightarrow> fault + string" where
  "GqlType_NamedType None = Inl (Panic NilPointerDereference)"
| "GqlType_NamedType (Some (GqlType kind name ofType)) =
     (if name \<noteq> [] then Inr name else GqlType_NamedType ofType)"

subsection \<open>The local schema and the operation\<close>

text \<open>
  Modelled from the spec: the type \<^verbatim>\<open>ast.Type\<close> and its method \<^verbatim>\<open>String\<close> belong to the
  parser library and are not part of this file. A local type reference is the closed
  variant named type, list wrapper, non-null wrapper, and its canonical string is the
  GraphQL type syntax \<^verbatim>\<open>Name\<close>, \<^verbatim>\<open>[Inner]\<close>, \<^verbatim>\<open>Inner!\<close>.
\<close>

datatype ast_Type = Named string | List ast_Type | NonNull ast_Type

fun ast_Type_String :: "ast_Type \<Rightarrow> string" where
  "ast_Type_String (Named name) = name"
| "ast_Type_String (List inner) = ''['' @ ast_Type_String inner @ '']''"
| "ast_Type_String (NonNull inner) = ast_Type_String inner @ ''!''"

text \<open>
  The introspection encoding of a type reference: a wrapper has an empty name and its
  inner type under \<^verbatim>\<open>ofType\<close>; a named type has the kind \<open>k\<close> of its definition.
\<close>

fun introspected :: "string \<Rightarrow> ast_Type \<Rightarrow> GqlType" where
  "introspected k (Named name) = GqlType k name None"
| "introspected k (List inner) = GqlType ''LIST'' [] (Some (introspected k inner))"
| "introspected k (NonNull inner) = GqlType ''NON_NULL'' [] (Some (introspected k inner))"

text \<open>The names at the levels of an \<^verbatim>\<open>ofType\<close> chain, outermost first.\<close>

fun levelNames :: "GqlType option \<Rightarrow> string list" where
  "levelNames None = []"
| "levelNames (Some (GqlType kind name ofType)) = name # levelNames ofType"

text \<open>
  The definitions of the local schema and the parsed operation (\<^verbatim>\<open>ast.Definition\<close>,
  \<^verbatim>\<open>ast.FieldDefinition\<close>, \<^verbatim>\<open>ast.ArgumentDefinition\<close>, \<^verbatim>\<open>ast.Field\<close>,
  \<^verbatim>\<open>ast.Argument\<close>, \<^verbatim>\<open>ast.OperationDefinition\<close>, \<^verbatim>\<open>ast.Schema\<close>), with the fields
  that the file reads. The \<^verbatim>\<open>Value\<close> of an argument is kept as the string that
  \<^verbatim>\<open>arg.Value.String()\<close> returns (\<open>$id\<close> for the variable \<open>id\<close>). A selection is a
  field, a fragment spread or an inline fragment.
\<close>

datatype ast_ArgumentDefinition = ast_ArgumentDefinition (Name: string) (Type: ast_Type)

datatype ast_FieldDefinition = ast_FieldDefinition (Name: string)
  (Arguments: "ast_ArgumentDefinition list") (Type: ast_Type)

datatype ast_Definition = ast_Definition (Name: string) (Fields: "ast_FieldDefinition list")

datatype ast_Argument = ast_Argument (Name: string) (Value: string)

datatype ast_Field = ast_Field (Name: string) (Arguments: "ast_Argument list")

datatype ast_Selection = Field ast_Field | FragmentSpread string | InlineFragment string

datatype ast_OperationDefinition = ast_OperationDefinition (Operation: string)
  (SelectionSet: "ast_Selection list")

datatype ast_Schema = ast_Schema (Types: "string \<rightharpoonup> ast_Definition")

text \<open>
  Modelled from the spec: \<^verbatim>\<open>FieldList.ForName\<close> belongs to the parser library; it is the
  lookup of a field definition by name, absent when no field has the name.
\<close>

definition FieldList_ForName :: "ast_FieldDefinition list \<Rightarrow> string \<Rightarrow> ast_FieldDefinition option" where
  "FieldList_ForName l name = find (\<lambda>f. ast_FieldDefinition.Name f = name) l"

text \<open>
  Modelled from the spec: the table \<^verbatim>\<open>graphqlScalarType\<close> is declared outside this file.
  The functions below take the set of its keys as the parameter \<open>sc\<close>; the builtin
  scalar names are the keys that the spec lists.
\<close>

definition builtinScalars :: "string set" where
  "builtinScalars = {''Int'', ''Float'', ''String'', ''Boolean'', ''ID''}"

subsection \<open>Ranging over a map\<close>

text \<open>
  A Go map that the code ranges over is an association list with one entry per key:
  \<^verbatim>\<open>m[k] = v\<close> is \<open>AList.update k v m\<close> and a lookup is \<open>map_of m k\<close>. The order
  of a \<^verbatim>\<open>range\<close> over a map is unspecified; \<open>ord\<close> chooses it from the keys, and the
  entries are visited in that order.
\<close>

definition rangeMap :: "(string list \<Rightarrow> string list) \<Rightarrow> (string \<times> 'v) list \<Rightarrow> (string \<times> 'v) list" where
  "rangeMap ord m = List.map_filter (\<lambda>k. map_option (Pair k) (map_of m k)) (ord (map fst m))"

subsection \<open>Expansion of the remote types\<close>

text \<open>
  \<^verbatim>\<open>expandArgParams\<close>: the set of the names already expanded, the remote schema and the
  map from a type name to its fields, which \<^verbatim>\<open>validateRemoteGraphql\<close> ranges over.
\<close>

record expandArgParams =
  expandedTypes :: "string set"
  introspectedSchema :: IntrospectedSchema
  typesToFields :: "(string \<times> GqlField list) list"

definition lookupFields :: "(string \<times> GqlField list) list \<Rightarrow> string \<Rightarrow> GqlField list" where
  "lookupFields m k = (case map_of m k of None \<Rightarrow> [] | Some fs \<Rightarrow> fs)"

function expandArgRecursively ::
    "string set \<Rightarrow> string \<Rightarrow> expandArgParams \<Rightarrow> fault option \<times> expandArgParams"
  and expandArgRecursively_types ::
    "string set \<Rightarrow> string \<Rightarrow> Types list \<Rightarrow> bool \<Rightarrow> expandArgParams
      \<Rightarrow> (fault option \<times> bool) \<times> expandArgParams"
  and expandArgRecursively_fields ::
    "string set \<Rightarrow> GqlField list \<Rightarrow> expandArgParams \<Rightarrow> fault option \<times> expandArgParams"
  and expandArgRecursively_inputFields ::
    "string set \<Rightarrow> GqlField list \<Rightarrow> expandArgParams \<Rightarrow> fault option \<times> expandArgParams"
where
  "expandArgRecursively sc arg param =
     (if arg \<in> expandedTypes param then (None, param)
      else
        (case expandArgRecursively_types sc arg
                (IntrospectionSchema.Types (Schema (Data (introspectedSchema param)))) False
                (param\<lparr>expandedTypes := insert arg (expandedTypes param)\<rparr>) of
           ((Some e, typeFound), p) \<Rightarrow> (Some e, p)
         | ((None, typeFound), p) \<Rightarrow>
             if \<not> typeFound then (Some (Err (RemoteTypeNotFound arg)), p) else (None, p)))"
| "expandArgRecursively_types sc arg [] typeFound param = ((None, typeFound), param)"
| "expandArgRecursively_types sc arg (inputType # rest) typeFound param =
     (if Types.Name inputType = arg then
        (case expandArgRecursively_fields sc (Types.Fields inputType)
                (param\<lparr>typesToFields :=
                   AList.update (Types.Name inputType) (Types.Fields inputType)
                     (typesToFields param)\<rparr>) of
           (Some e, p) \<Rightarrow> ((Some e, True), p)
         | (None, p) \<Rightarrow>
             (case expandArgRecursively_inputFields sc (Types.InputFields inputType)
                     (p\<lparr>typesToFields :=
                        AList.update (Types.Name inputType)
                          (lookupFields (typesToFields p) (Types.Name inputType)
                             @ Types.InputFields inputType)
                          (typesToFields p)\<rparr>) of
                (Some e, p') \<Rightarrow> ((Some e, True), p')
              | (None, p') \<Rightarrow> expandArgRecursively_types sc arg rest True p'))
      else expandArgRecursively_types sc arg rest typeFound param)"
| "expandArgRecursively_fields sc [] param = (None, param)"
| "expandArgRecursively_fields sc (field # rest) param =
     (case GqlField.Type field of
        None \<Rightarrow> (Some (Panic NilPointerDereference), param)
      | Some t \<Rightarrow>
          if GqlType.Name t \<in> sc then expandArgRecursively_fields sc rest param
          else
            (case GqlType_NamedType (Some t) of
               Inl f \<Rightarrow> (Some f, param)
             | Inr n \<Rightarrow>
                 (case expandArgRecursively sc n param of
                    (Some e, p) \<Rightarrow> (Some e, p)
                  | (None, p) \<Rightarrow> expandArgRecursively_fields sc rest p)))"
| "expandArgRecursively_inputFields sc [] param = (None, param)"
| "expandArgRecursively_inputFields sc (field # rest) param =
     (case GqlType_NamedType (GqlField.Type field) of
        Inl f \<Rightarrow> (Some f, param)
      | Inr n \<Rightarrow>
          if n \<in> sc then expandArgRecursively_inputFields sc rest param
          else
            (case expandArgRecursively sc n param of
               (Some e, p) \<Rightarrow> (Some e, p)
             | (None, p) \<Rightarrow> expandArgRecursively_inputFields sc rest p))"
  by pat_completeness auto


definition remoteTypes :: "expandArgParams \<Rightarrow> Types list" where
  "remoteTypes param = IntrospectionSchema.Types (Schema (Data (introspectedSchema param)))"

definition unexpanded :: "expandArgParams \<Rightarrow> nat" where
  "unexpanded param = card (Types.Name ` set (remoteTypes param) - expandedTypes param)"

definition grows :: "expandArgParams \<Rightarrow> expandArgParams \<Rightarrow> bool" where
  "grows p q \<longleftrightarrow>
     expandedTypes p \<subseteq> expandedTypes q \<and> introspectedSchema q = introspectedSchema p"

lemma grows_refl [simp]: "grows p p"
  by (simp add: grows_def)

lemma grows_trans: "grows p q \<Longrightarrow> grows q r \<Longrightarrow> grows p r"
  by (auto simp: grows_def)

lemma grows_typesToFields [simp]:
  "grows (p\<lparr>typesToFields := m\<rparr>) q = grows p q"
  "grows p (q\<lparr>typesToFields := m\<rparr>) = grows p q"
  by (simp_all add: grows_def)

lemma grows_insert: "grows (p\<lparr>expandedTypes := insert a (expandedTypes p)\<rparr>) q \<Longrightarrow> grows p q"
  by (auto simp: grows_def)

lemma grows_unexpanded: "grows p q \<Longrightarrow> unexpanded q \<le> unexpanded p"
  unfolding grows_def unexpanded_def remoteTypes_def
  by (auto intro!: card_mono)

lemma expand_grows_dom:
  "expandArgRecursively_expandArgRecursively_types_expandArgRecursively_fields_expandArgRecursively_inputFields_dom
     (Inl (Inl (sc, arg, param))) \<Longrightarrow> grows param (snd (expandArgRecursively sc arg param))"
  "expandArgRecursively_expandArgRecursively_types_expandArgRecursively_fields_expandArgRecursively_inputFields_dom
     (Inl (Inr (sc, arg, ts, typeFound, param))) \<Longrightarrow>
     grows param (snd (expandArgRecursively_types sc arg ts typeFound param))"
  "expandArgRecursively_expandArgRecursively_types_expandArgRecursively_fields_expandArgRecursively_inputFields_dom
     (Inr (Inl (sc, fs, param))) \<Longrightarrow> grows param (snd (expandArgRecursively_fields sc fs param))"
  "expandArgRecursively_expandArgRecursively_types_expandArgRecursively_fields_expandArgRecursively_inputFields_dom
     (Inr (Inr (sc, fs, param))) \<Longrightarrow>
     grows param (snd (expandArgRecursively_inputFields sc fs param))"
proof (induct rule: expandArgRecursively_expandArgRecursively_types_expandArgRecursively_fields_expandArgRecursively_inputFields.pinduct)
  case (1 sc arg param)
  then show ?case
    by (auto simp: expandArgRecursively.psimps split: prod.splits option.splits dest: grows_insert)
next
  case (2 sc arg typeFound param)
  then show ?case by (simp add: expandArgRecursively_types.psimps)
next
  case (3 sc arg inputType rest typeFound param)
  show ?case
  proof (cases "Types.Name inputType = arg")
    case False
    with 3 show ?thesis by (simp add: expandArgRecursively_types.psimps)
  next
    case True
    let ?p1 = "param\<lparr>typesToFields :=
                   AList.update (Types.Name inputType) (Types.Fields inputType)
                     (typesToFields param)\<rparr>"
    obtain x y where xy: "expandArgRecursively_fields sc (Types.Fields inputType) ?p1 = (x, y)"
      by (cases "expandArgRecursively_fields sc (Types.Fields inputType) ?p1")
    from 3(2)[OF True] xy have g1: "grows param y" by simp
    show ?thesis
    proof (cases x)
      case (Some e)
      with 3(1) True xy g1 show ?thesis by (simp add: expandArgRecursively_types.psimps)
    next
      case None
      let ?p3 = "y\<lparr>typesToFields :=
                        AList.update (Types.Name inputType)
                          (lookupFields (typesToFields y) (Types.Name inputType)
                             @ Types.InputFields inputType)
                          (typesToFields y)\<rparr>"
      obtain xa ya where xya: "expandArgRecursively_inputFields sc (Types.InputFields inputType) ?p3 = (xa, ya)"
        by (cases "expandArgRecursively_inputFields sc (Types.InputFields inputType) ?p3")
      from 3(3)[OF True xy[symmetric] None] xya have g2: "grows y ya" by simp
      show ?thesis
      proof (cases xa)
        case (Some e)
        with 3(1) True xy None xya g1 g2 show ?thesis
          by (auto simp add: expandArgRecursively_types.psimps intro: grows_trans)
      next
        case None2: None
        from 3(4)[OF True xy[symmetric] None xya[symmetric] None2]
        have "grows ya (snd (expandArgRecursively_types sc arg rest True ya))" .
        with 3(1) True xy None xya None2 g1 g2 show ?thesis
          by (auto simp add: expandArgRecursively_types.psimps intro: grows_trans)
      qed
    qed
  qed
next
  case (4 sc param)
  then show ?case by (simp add: expandArgRecursively_fields.psimps)
next
  case (5 sc field rest param)
  show ?case
  proof (cases "GqlField.Type field")
    case None
    with 5(1) show ?thesis by (simp add: expandArgRecursively_fields.psimps)
  next
    case (Some t)
    show ?thesis
    proof (cases "GqlType.Name t \<in> sc")
      case True
      with 5(1) 5(2)[OF Some True] Some show ?thesis
        by (simp add: expandArgRecursively_fields.psimps)
    next
      case False
      show ?thesis
      proof (cases "GqlType_NamedType (Some t)")
        case (Inl f)
        with 5(1) Some False show ?thesis by (simp add: expandArgRecursively_fields.psimps)
      next
        case (Inr n)
        obtain x y where xy: "expandArgRecursively sc n param = (x, y)"
          by (cases "expandArgRecursively sc n param")
        from 5(3)[OF Some False Inr] xy have g1: "grows param y" by simp
        show ?thesis
        proof (cases x)
          case (Some e)
          with 5(1) \<open>GqlField.Type field = Some t\<close> False Inr xy g1 show ?thesis
            by (simp add: expandArgRecursively_fields.psimps)
        next
          case None
          from 5(4)[OF \<open>GqlField.Type field = Some t\<close> False Inr xy[symmetric] None]
          have "grows y (snd (expandArgRecursively_fields sc rest y))" .
          with g1 have "grows param (snd (expandArgRecursively_fields sc rest y))"
            by (rule grows_trans)
          with 5(1) \<open>GqlField.Type field = Some t\<close> False Inr xy None show ?thesis
            by (simp add: expandArgRecursively_fields.psimps)
        qed
      qed
    qed
  qed
next
  case (6 sc param)
  then show ?case by (simp add: expandArgRecursively_inputFields.psimps)
next
  case (7 sc field rest param)
  show ?case
  proof (cases "GqlType_NamedType (GqlField.Type field)")
    case (Inl f)
    with 7(1) show ?thesis by (simp add: expandArgRecursively_inputFields.psimps)
  next
    case (Inr n)
    show ?thesis
    proof (cases "n \<in> sc")
      case True
      with 7(1) 7(2)[OF Inr True] Inr show ?thesis
        by (simp add: expandArgRecursively_inputFields.psimps)
    next
      case False
      obtain x y where xy: "expandArgRecursively sc n param = (x, y)"
        by (cases "expandArgRecursively sc n param")
      from 7(3)[OF Inr False] xy have g1: "grows param y" by simp
      show ?thesis
      proof (cases x)
        case (Some e)
        with 7(1) Inr False xy g1 show ?thesis
          by (simp add: expandArgRecursively_inputFields.psimps)
      next
        case None
        from 7(4)[OF Inr False xy[symmetric] None]
        have "grows y (snd (expandArgRecursively_inputFields sc rest y))" .
        with g1 have "grows param (snd (expandArgRecursively_inputFields sc rest y))"
          by (rule grows_trans)
        with 7(1) Inr False xy None show ?thesis
          by (simp add: expandArgRecursively_inputFields.psimps)
      qed
    qed
  qed
qed

lemma unexpanded_typesToFields [simp]:
  "unexpanded (p\<lparr>typesToFields := m\<rparr>) = unexpanded p"
  by (simp add: unexpanded_def remoteTypes_def)

lemma unexpanded_insert_le:
  "unexpanded (p\<lparr>expandedTypes := insert a (expandedTypes p)\<rparr>) \<le> unexpanded p"
  unfolding unexpanded_def remoteTypes_def by (auto intro!: card_mono)

lemma unexpanded_insert_less:
  assumes "a \<notin> expandedTypes p" and "a \<in> Types.Name ` set (remoteTypes p)"
  shows "unexpanded (p\<lparr>expandedTypes := insert a (expandedTypes p)\<rparr>) < unexpanded p"
proof -
  let ?A = "Types.Name ` set (remoteTypes p)"
  have "?A - insert a (expandedTypes p) \<subset> ?A - expandedTypes p"
    using assms by auto
  then have "card (?A - insert a (expandedTypes p)) < card (?A - expandedTypes p)"
    by (intro psubset_card_mono) auto
  then show ?thesis by (simp add: unexpanded_def remoteTypes_def)
qed

lemma unexpanded_after_expand:
  "(x, y) = expandArgRecursively sc arg param \<Longrightarrow>
   expandArgRecursively_expandArgRecursively_types_expandArgRecursively_fields_expandArgRecursively_inputFields_dom
     (Inl (Inl (sc, arg, param))) \<Longrightarrow> unexpanded y \<le> unexpanded param"
  using expand_grows_dom(1)[of sc arg param] by (auto dest: grows_unexpanded simp: prod_eq_iff)

lemma unexpanded_after_fields:
  "(x, y) = expandArgRecursively_fields sc fs param \<Longrightarrow>
   expandArgRecursively_expandArgRecursively_types_expandArgRecursively_fields_expandArgRecursively_inputFields_dom
     (Inr (Inl (sc, fs, param))) \<Longrightarrow> unexpanded y \<le> unexpanded param"
  using expand_grows_dom(3)[of sc fs param] by (auto dest: grows_unexpanded simp: prod_eq_iff)

lemma unexpanded_after_inputFields:
  "(x, y) = expandArgRecursively_inputFields sc fs param \<Longrightarrow>
   expandArgRecursively_expandArgRecursively_types_expandArgRecursively_fields_expandArgRecursively_inputFields_dom
     (Inr (Inr (sc, fs, param))) \<Longrightarrow> unexpanded y \<le> unexpanded param"
  using expand_grows_dom(4)[of sc fs param] by (auto dest: grows_unexpanded simp: prod_eq_iff)

lemma expandArgRecursively_total:
  "All expandArgRecursively_expandArgRecursively_types_expandArgRecursively_fields_expandArgRecursively_inputFields_dom"
proof (relation "inv_image (less_than <*lex*> less_than <*lex*> less_than)
    (\<lambda>x. case x of
       Inl (Inl (sc, arg, p)) \<Rightarrow> (2 * unexpanded p + 1, 0::nat, 0::nat)
     | Inl (Inr (sc, arg, ts, tf, p)) \<Rightarrow>
         ((if arg \<in> Types.Name ` set ts then 2 * unexpanded p + 2 else 2 * unexpanded p),
          2, length ts)
     | Inr (Inl (sc, fs, p)) \<Rightarrow> (2 * unexpanded p + 2, 1, length fs)
     | Inr (Inr (sc, fs, p)) \<Rightarrow> (2 * unexpanded p + 2, 1, length fs))", goal_cases)
  case 1
  show ?case by (intro wf_inv_image wf_lex_prod wf_less_than)
next
  case (2 sc arg param)
  show ?case
  proof (cases "arg \<in> Types.Name ` set (remoteTypes param)")
    case True
    from unexpanded_insert_less[OF 2 True] True show ?thesis
      by (simp add: remoteTypes_def)
  next
    case False
    with unexpanded_insert_le[of arg param] show ?thesis
      by (simp add: remoteTypes_def)
  qed
next
  case 3 then show ?case by simp
next
  case (4 sc arg inputType rest typeFound param x y)
  from unexpanded_after_fields[OF 4(2) 4(4)] 4(1) show ?case by auto
next
  case (5 sc arg inputType rest typeFound param x y xa ya)
  from unexpanded_after_fields[OF 5(2) 5(7)] unexpanded_after_inputFields[OF 5(4) 5(6)] 5(1)
  show ?case by auto
next
  case 6 then show ?case by auto
next
  case 7 then show ?case by simp
next
  case 8 then show ?case by simp
next
  case (9 sc field rest param x2 b x y)
  from unexpanded_after_expand[OF 9(4) 9(6)] show ?case by auto
next
  case 10 then show ?case by simp
next
  case 11 then show ?case by simp
next
  case (12 sc field rest param b x y)
  from unexpanded_after_expand[OF 12(3) 12(5)] show ?case by auto
qed

termination expandArgRecursively
  by (rule expandArgRecursively_total)

declare expandArgRecursively.simps [simp del]

text \<open>
  \<^verbatim>\<open>expandArgs\<close>: the loop over the seeds, in the order of the range, and the function.
\<close>

fun expandArgs_seeds ::
    "string set \<Rightarrow> (string \<times> Args) list \<Rightarrow> expandArgParams \<Rightarrow> fault option \<times> expandArgParams" where
  "expandArgs_seeds sc [] param = (None, param)"
| "expandArgs_seeds sc ((key, typeTobeExpanded) # rest) param =
     (case GqlType_NamedType (Args.Type typeTobeExpanded) of
        Inl f \<Rightarrow> (Some f, param)
      | Inr n \<Rightarrow>
          if n \<in> sc then expandArgs_seeds sc rest param
          else
            (case expandArgRecursively sc n param of
               (Some e, p) \<Rightarrow> (Some e, p)
             | (None, p) \<Rightarrow> expandArgs_seeds sc rest p))"

definition expandArgs ::
    "(string list \<Rightarrow> string list) \<Rightarrow> string set \<Rightarrow> (string \<times> Args) list \<Rightarrow> IntrospectedSchema
      \<Rightarrow> fault + (string \<times> GqlField list) list" where
  "expandArgs ord sc argToVal remoteSchema =
     (case expandArgs_seeds sc (rangeMap ord argToVal)
             \<lparr>expandedTypes = {}, introspectedSchema = remoteSchema, typesToFields = []\<rparr> of
        (Some e, param) \<Rightarrow> Inl e
      | (None, param) \<Rightarrow> Inr (typesToFields param))"

subsection \<open>The arguments of the given and of the remote query\<close>

text \<open>
  \<^verbatim>\<open>getFieldArgDefsAsMap\<close>: a later argument of the same name replaces an earlier one.
\<close>

definition getFieldArgDefsAsMap :: "ast_FieldDefinition \<Rightarrow> (string \<rightharpoonup> ast_ArgumentDefinition)" where
  "getFieldArgDefsAsMap fieldDef =
     fold (\<lambda>v argMap. argMap(ast_ArgumentDefinition.Name v \<mapsto> v))
       (ast_FieldDefinition.Arguments fieldDef) Map.empty"

text \<open>
  \<^verbatim>\<open>getGivenQueryArgsAsMap\<close>. The slice \<^verbatim>\<open>varName[1:]\<close> of an empty string panics. A
  value of the first map is a pointer, nil when the parent field declares no argument
  of the variable's name. The first map is ranged over, the second only read.
\<close>

fun getGivenQueryArgsAsMap_args ::
    "(string \<rightharpoonup> ast_ArgumentDefinition) \<Rightarrow> ast_Argument list
      \<Rightarrow> (string \<times> ast_ArgumentDefinition option) list \<times> (string \<rightharpoonup> string)
      \<Rightarrow> fault + (string \<times> ast_ArgumentDefinition option) list \<times> (string \<rightharpoonup> string)" where
  "getGivenQueryArgsAsMap_args parentFieldArgMap [] (argDefMap, argValMap) =
     Inr (argDefMap, argValMap)"
| "getGivenQueryArgsAsMap_args parentFieldArgMap (arg # rest) (argDefMap, argValMap) =
     (let varName = ast_Argument.Value arg in
      if varName = [] then Inl (Panic SliceBoundsOutOfRange)
      else getGivenQueryArgsAsMap_args parentFieldArgMap rest
             (AList.update (ast_Argument.Name arg) (parentFieldArgMap (tl varName)) argDefMap,
              argValMap(ast_Argument.Name arg \<mapsto> varName)))"

definition getGivenQueryArgsAsMap ::
    "ast_Field \<Rightarrow> ast_FieldDefinition \<Rightarrow> ast_Definition
      \<Rightarrow> fault + (string \<times> ast_ArgumentDefinition option) list \<times> (string \<rightharpoonup> string)" where
  "getGivenQueryArgsAsMap givenQuery parentField parentType =
     (if ast_Definition.Name parentType = ''Query'' \<or> ast_Definition.Name parentType = ''Mutation''
      then getGivenQueryArgsAsMap_args (getFieldArgDefsAsMap parentField)
             (ast_Field.Arguments givenQuery) ([], Map.empty)
      else Inr ([], Map.empty))"

text \<open>
  \<^verbatim>\<open>getRemoteQueryArgsAsMap\<close>. Reading \<^verbatim>\<open>arg.Type.Kind\<close> through a nil \<^verbatim>\<open>Type\<close> panics.
\<close>

fun getRemoteQueryArgsAsMap_args ::
    "Args list \<Rightarrow> (string \<times> Args) list \<times> string list
      \<Rightarrow> fault + (string \<times> Args) list \<times> string list" where
  "getRemoteQueryArgsAsMap_args [] (argDefMap, requiredArgs) = Inr (argDefMap, requiredArgs)"
| "getRemoteQueryArgsAsMap_args (arg # rest) (argDefMap, requiredArgs) =
     (case Args.Type arg of
        None \<Rightarrow> Inl (Panic NilPointerDereference)
      | Some t \<Rightarrow>
          getRemoteQueryArgsAsMap_args rest
            (AList.update (Args.Name arg) arg argDefMap,
             if GqlType.Kind t = ''NON_NULL'' then requiredArgs @ [Args.Name arg]
             else requiredArgs))"

definition getRemoteQueryArgsAsMap ::
    "GqlField \<Rightarrow> fault + (string \<times> Args) list \<times> string list" where
  "getRemoteQueryArgsAsMap remoteQuery =
     getRemoteQueryArgsAsMap_args (GqlField.Args remoteQuery) ([], [])"

subsection \<open>The validation\<close>

text \<open>
  The loops of \<^verbatim>\<open>validateRemoteGraphql\<close>. The search for the remote query looks at every
  type of the remote schema that has the name of the root type, in order, and stops at
  the first field of the given name.
\<close>

fun findRemoteQuery :: "string \<Rightarrow> string \<Rightarrow> Types list \<Rightarrow> GqlField option" where
  "findRemoteQuery remoteQueryTypename name [] = None"
| "findRemoteQuery remoteQueryTypename name (typ # rest) =
     (if Types.Name typ \<noteq> remoteQueryTypename then findRemoteQuery remoteQueryTypename name rest
      else
        (case find (\<lambda>remoteQuery. GqlField.Name remoteQuery = name) (Types.Fields typ) of
           Some remoteQuery \<Rightarrow> Some remoteQuery
         | None \<Rightarrow> findRemoteQuery remoteQueryTypename name rest))"

text \<open>
  The loop over the arguments of the given query; a lookup of a missing key in the
  map of the values gives the empty string.
\<close>

definition lookupVal :: "(string \<rightharpoonup> string) \<Rightarrow> string \<Rightarrow> string" where
  "lookupVal m k = (case m k of None \<Rightarrow> [] | Some v \<Rightarrow> v)"

fun checkGivenArgs ::
    "string \<Rightarrow> string \<Rightarrow> (string \<times> Args) list \<Rightarrow> (string \<rightharpoonup> string)
      \<Rightarrow> (string \<times> ast_ArgumentDefinition option) list \<Rightarrow> fault option" where
  "checkGivenArgs operationType name remoteQryArgDefs givenQryArgVals [] = None"
| "checkGivenArgs operationType name remoteQryArgDefs givenQryArgVals
       ((givenArgName, givenArgDef) # rest) =
     (case map_of remoteQryArgDefs givenArgName of
        None \<Rightarrow> Some (Err (ArgNotPresentInRemote operationType name givenArgName operationType))
      | Some remoteArgDef \<Rightarrow>
          (case givenArgDef of
             None \<Rightarrow>
               Some (Err (VariableMissing operationType name
                            (lookupVal givenQryArgVals givenArgName)))
           | Some def \<Rightarrow>
               (let expectedArgType = GqlType_String (Args.Type remoteArgDef);
                    gotArgType = ast_Type_String (ast_ArgumentDefinition.Type def) in
                if expectedArgType \<noteq> gotArgType
                then Some (Err (ArgTypeMismatch operationType name
                                  (lookupVal givenQryArgVals givenArgName)
                                  expectedArgType gotArgType))
                else checkGivenArgs operationType name remoteQryArgDefs givenQryArgVals rest)))"

text \<open>The loop over the names of the required arguments of the remote query.\<close>

fun checkRequiredArgs ::
    "string \<Rightarrow> string \<Rightarrow> (string \<rightharpoonup> string) \<Rightarrow> string list \<Rightarrow> fault option" where
  "checkRequiredArgs operationType name givenQryArgVals [] = None"
| "checkRequiredArgs operationType name givenQryArgVals (remoteArgName # rest) =
     (case givenQryArgVals remoteArgName of
        None \<Rightarrow> Some (Err (RequiredArgMissing operationType name remoteArgName))
      | Some v \<Rightarrow> checkRequiredArgs operationType name givenQryArgVals rest)"

text \<open>The loops over the expanded remote types and over the fields of one of them.\<close>

fun checkExpandedFields ::
    "ast_Definition \<Rightarrow> string \<Rightarrow> GqlField list \<Rightarrow> fault option" where
  "checkExpandedFields localType typeName [] = None"
| "checkExpandedFields localType typeName (field # rest) =
     (case FieldList_ForName (ast_Definition.Fields localType) (GqlField.Name field) of
        None \<Rightarrow>
          Some (Err (LocalFieldNotFound (GqlField.Name field) (ast_Definition.Name localType)
                       (ast_Definition.Name localType)))
      | Some localField \<Rightarrow>
          if ast_Type_String (ast_FieldDefinition.Type localField)
               \<noteq> GqlType_String (GqlField.Type field)
          then Some (Err (FieldTypeMismatch (GqlField.Name field)
                            (GqlType_String (GqlField.Type field))
                            (ast_Type_String (ast_FieldDefinition.Type localField)) typeName))
          else checkExpandedFields localType typeName rest)"

fun checkExpandedTypes ::
    "ast_Schema \<Rightarrow> (string \<times> GqlField list) list \<Rightarrow> fault option" where
  "checkExpandedTypes localSchema [] = None"
| "checkExpandedTypes localSchema ((typeName, fields') # rest) =
     (case ast_Schema.Types localSchema typeName of
        None \<Rightarrow> Some (Err (LocalTypeNotFound typeName))
      | Some localType \<Rightarrow>
          (case checkExpandedFields localType typeName fields' of
             Some e \<Rightarrow> Some e
           | None \<Rightarrow> checkExpandedTypes localSchema rest))"

text \<open>
  \<^verbatim>\<open>remoteGraphqlMetadata\<close> and \<^verbatim>\<open>validateRemoteGraphql\<close>. The request to the remote server is the parameter
  \<open>introspectRemoteSchema\<close>, from the url to an error or the decoded schema; the key
  \<^verbatim>\<open>returnType\<close>, which the source computes with a function of another package, is the
  parameter \<open>returnType\<close>. The result \<open>Inr ()\<close> is the nil error. Indexing an empty
  selection set panics, and so does the type assertion on a selection that is not a
  field.
\<close>

record remoteGraphqlMetadata =
  parentType :: ast_Definition
  parentField :: ast_FieldDefinition
  graphqlOpDef :: ast_OperationDefinition
  url :: string
  schema :: ast_Schema

definition validateRemoteGraphql ::
    "(string list \<Rightarrow> string list) \<Rightarrow> string set \<Rightarrow> string
      \<Rightarrow> (string \<Rightarrow> error + IntrospectedSchema) \<Rightarrow> remoteGraphqlMetadata \<Rightarrow> fault + unit" where
  "validateRemoteGraphql ord sc returnType introspectRemoteSchema metadata =
     (case introspectRemoteSchema (url metadata) of
        Inl err \<Rightarrow> Inl (Err err)
      | Inr remoteIntrospection \<Rightarrow>
     (let operationType = Operation (graphqlOpDef metadata) in
      if operationType \<noteq> ''query'' \<and> operationType \<noteq> ''mutation''
      then Inl (Err (OperationNotAllowed operationType))
      else
     (let remoteQueryTypename =
            (if operationType = ''query''
             then IntrospectionQueryType.Name (QueryType (Schema (Data remoteIntrospection)))
             else IntrospectionQueryType.Name (MutationType (Schema (Data remoteIntrospection)))) in
      case SelectionSet (graphqlOpDef metadata) of
        [] \<Rightarrow> Inl (Panic IndexOutOfRange)
      | FragmentSpread s # others \<Rightarrow> Inl (Panic InterfaceConversion)
      | InlineFragment s # others \<Rightarrow> Inl (Panic InterfaceConversion)
      | Field givenQuery # others \<Rightarrow>
     (case findRemoteQuery remoteQueryTypename (ast_Field.Name givenQuery)
             (IntrospectionSchema.Types (Schema (Data remoteIntrospection))) of
        None \<Rightarrow> Inl (Err (NotPresentInRemote operationType (ast_Field.Name givenQuery)))
      | Some introspectedRemoteQuery \<Rightarrow>
     (let expectedReturnType = GqlType_String (GqlField.Type introspectedRemoteQuery);
          gotReturnType = ast_Type_String (ast_FieldDefinition.Type (parentField metadata)) in
      if expectedReturnType \<noteq> gotReturnType
      then Inl (Err (ReturnTypeMismatch operationType (ast_Field.Name givenQuery)
                       expectedReturnType gotReturnType))
      else
     (case getGivenQueryArgsAsMap givenQuery (parentField metadata) (parentType metadata) of
        Inl f \<Rightarrow> Inl f
      | Inr (givenQryArgDefs, givenQryArgVals) \<Rightarrow>
     (case getRemoteQueryArgsAsMap introspectedRemoteQuery of
        Inl f \<Rightarrow> Inl f
      | Inr (remoteQryArgDefs, remoteQryRequiredArgs) \<Rightarrow>
     (case checkGivenArgs operationType (ast_Field.Name givenQuery) remoteQryArgDefs
             givenQryArgVals (rangeMap ord givenQryArgDefs) of
        Some f \<Rightarrow> Inl f
      | None \<Rightarrow>
     (case checkRequiredArgs operationType (ast_Field.Name givenQuery) givenQryArgVals
             remoteQryRequiredArgs of
        Some f \<Rightarrow> Inl f
      | None \<Rightarrow>
     (case expandArgs ord sc
             (AList.update returnType (Args.Args [] (GqlField.Type introspectedRemoteQuery) None)
                remoteQryArgDefs)
             remoteIntrospection of
        Inl f \<Rightarrow> Inl f
      | Inr expandedRemoteTypes \<Rightarrow>
     (case checkExpandedTypes (schema metadata) (rangeMap ord expandedRemoteTypes) of
        Some f \<Rightarrow> Inl f
      | None \<Rightarrow> Inr ())))))))))))"

subsection \<open>Auxiliary definitions\<close>

text \<open>
  The names of the types of the remote schema, the parameters that \<^verbatim>\<open>expandArgs\<close>
  starts from, and a remote schema with the given types and the usual root names.
\<close>

definition typeNames :: "expandArgParams \<Rightarrow> string set" where
  "typeNames param = Types.Name ` set (remoteTypes param)"

definition expandArgs_init :: "IntrospectedSchema \<Rightarrow> expandArgParams" where
  "expandArgs_init remoteSchema =
     \<lparr>expandedTypes = {}, introspectedSchema = remoteSchema, typesToFields = []\<rparr>"

definition exampleSchema :: "Types list \<Rightarrow> IntrospectedSchema" where
  "exampleSchema ts = IntrospectedSchema (Data.Data (IntrospectionSchema
     (IntrospectionQueryType ''Query'') (IntrospectionQueryType ''Mutation'')
     (IntrospectionQueryType ''Subscription'') ts))"

text \<open>A type with a field of its own type.\<close>

definition nodeType :: Types where
  "nodeType = Types.Types ''OBJECT'' ''Node''
     [GqlField ''parent'' [] (Some (GqlType ''OBJECT'' ''Node'' None)) False None] []"

subsection \<open>The stages of the validation\<close>

text \<open>
  Following the words of the spec: the five stages of the compatibility checker, root
  resolution, field lookup, return-type check, argument check and shape check, each
  built from the functions above, and their composition that returns the failure of the
  first stage that fails. They are compared with \<^verbatim>\<open>validateRemoteGraphql\<close> below.
  \<open>remoteQueryTypename\<close> is the name that the switch on the operation selects.
\<close>

definition remoteQueryTypename :: "string \<Rightarrow> IntrospectedSchema \<Rightarrow> string" where
  "remoteQueryTypename operationType remoteIntrospection =
     (if operationType = ''query''
      then IntrospectionQueryType.Name (QueryType (Schema (Data remoteIntrospection)))
      else IntrospectionQueryType.Name (MutationType (Schema (Data remoteIntrospection))))"

definition rootResolution :: "string \<Rightarrow> IntrospectedSchema \<Rightarrow> fault + string" where
  "rootResolution operationType remoteIntrospection =
     (if operationType = ''query''
      then Inr (IntrospectionQueryType.Name (QueryType (Schema (Data remoteIntrospection))))
      else if operationType = ''mutation''
      then Inr (IntrospectionQueryType.Name (MutationType (Schema (Data remoteIntrospection))))
      else Inl (Err (OperationNotAllowed operationType)))"

definition fieldLookup ::
    "string \<Rightarrow> string \<Rightarrow> string \<Rightarrow> IntrospectedSchema \<Rightarrow> fault + GqlField" where
  "fieldLookup operationType root name remoteIntrospection =
     (case findRemoteQuery root name
             (IntrospectionSchema.Types (Schema (Data remoteIntrospection))) of
        None \<Rightarrow> Inl (Err (NotPresentInRemote operationType name))
      | Some remoteQuery \<Rightarrow> Inr remoteQuery)"

definition returnTypeCheck ::
    "string \<Rightarrow> string \<Rightarrow> GqlField \<Rightarrow> ast_FieldDefinition \<Rightarrow> fault option" where
  "returnTypeCheck operationType name remoteQuery localField =
     (if GqlType_String (GqlField.Type remoteQuery)
           \<noteq> ast_Type_String (ast_FieldDefinition.Type localField)
      then Some (Err (ReturnTypeMismatch operationType name
                        (GqlType_String (GqlField.Type remoteQuery))
                        (ast_Type_String (ast_FieldDefinition.Type localField))))
      else None)"

definition argumentCheck ::
    "(string list \<Rightarrow> string list) \<Rightarrow> string \<Rightarrow> ast_Field \<Rightarrow> ast_FieldDefinition
      \<Rightarrow> ast_Definition \<Rightarrow> GqlField \<Rightarrow> fault option" where
  "argumentCheck ord operationType givenQuery localField localType remoteQuery =
     (case getGivenQueryArgsAsMap givenQuery localField localType of
        Inl f \<Rightarrow> Some f
      | Inr (givenQryArgDefs, givenQryArgVals) \<Rightarrow>
          (case getRemoteQueryArgsAsMap remoteQuery of
             Inl f \<Rightarrow> Some f
           | Inr (remoteQryArgDefs, remoteQryRequiredArgs) \<Rightarrow>
               (case checkGivenArgs operationType (ast_Field.Name givenQuery) remoteQryArgDefs
                       givenQryArgVals (rangeMap ord givenQryArgDefs) of
                  Some f \<Rightarrow> Some f
                | None \<Rightarrow>
                    checkRequiredArgs operationType (ast_Field.Name givenQuery) givenQryArgVals
                      remoteQryRequiredArgs)))"

definition shapeCheck ::
    "(string list \<Rightarrow> string list) \<Rightarrow> string set \<Rightarrow> string \<Rightarrow> IntrospectedSchema \<Rightarrow> GqlField
      \<Rightarrow> ast_Schema \<Rightarrow> fault option" where
  "shapeCheck ord sc returnType remoteIntrospection remoteQuery localSchema =
     (case getRemoteQueryArgsAsMap remoteQuery of
        Inl f \<Rightarrow> Some f
      | Inr (remoteQryArgDefs, remoteQryRequiredArgs) \<Rightarrow>
          (case expandArgs ord sc
                  (AList.update returnType (Args.Args [] (GqlField.Type remoteQuery) None)
                     remoteQryArgDefs)
                  remoteIntrospection of
             Inl f \<Rightarrow> Some f
           | Inr expandedRemoteTypes \<Rightarrow>
               checkExpandedTypes localSchema (rangeMap ord expandedRemoteTypes)))"

definition stagedValidation ::
    "(string list \<Rightarrow> string list) \<Rightarrow> string set \<Rightarrow> string \<Rightarrow> IntrospectedSchema
      \<Rightarrow> ast_Field \<Rightarrow> remoteGraphqlMetadata \<Rightarrow> fault + unit" where
  "stagedValidation ord sc returnType remoteIntrospection givenQuery metadata =
     (case rootResolution (Operation (graphqlOpDef metadata)) remoteIntrospection of
        Inl f \<Rightarrow> Inl f
      | Inr root \<Rightarrow>
     (case fieldLookup (Operation (graphqlOpDef metadata)) root (ast_Field.Name givenQuery)
             remoteIntrospection of
        Inl f \<Rightarrow> Inl f
      | Inr remoteQuery \<Rightarrow>
     (case returnTypeCheck (Operation (graphqlOpDef metadata)) (ast_Field.Name givenQuery)
             remoteQuery (parentField metadata) of
        Some f \<Rightarrow> Inl f
      | None \<Rightarrow>
     (case argumentCheck ord (Operation (graphqlOpDef metadata)) givenQuery
             (parentField metadata) (parentType metadata) remoteQuery of
        Some f \<Rightarrow> Inl f
      | None \<Rightarrow>
     (case shapeCheck ord sc returnType remoteIntrospection remoteQuery (schema metadata) of
        Some f \<Rightarrow> Inl f
      | None \<Rightarrow> Inr ())))))"

text \<open>
  The names of the required arguments of a remote query, in the order of its arguments,
  and the faults that are neither of the two panics of the access to the first
  selection.
\<close>

definition requiredNames :: "Args list \<Rightarrow> string list" where
  "requiredNames args =
     map Args.Name
       (filter (\<lambda>arg. case Args.Type arg of None \<Rightarrow> False
                                           | Some t \<Rightarrow> GqlType.Kind t = ''NON_NULL'') args)"

definition laterFault :: "fault \<Rightarrow> bool" where
  "laterFault f \<longleftrightarrow> f \<noteq> Panic IndexOutOfRange \<and> f \<noteq> Panic InterfaceConversion"

subsection \<open>Example inputs\<close>

text \<open>
  A remote schema with the query \<open>getPost\<close> and the type \<open>Post\<close>, and the metadata
  of a local field \<open>getPost(id: ID!): Post\<close> whose operation selects
  \<open>getPost(id: $id)\<close>.
\<close>

definition examplePost :: Types where
  "examplePost = Types.Types ''OBJECT'' ''Post''
     [GqlField ''title'' [] (Some (GqlType ''SCALAR'' ''String'' None)) False None] []"

definition exampleQuery :: "Args list \<Rightarrow> GqlType \<Rightarrow> Types" where
  "exampleQuery args returns = Types.Types ''OBJECT'' ''Query''
     [GqlField ''getPost'' args (Some returns) False None] []"

definition exampleId :: Args where
  "exampleId = Args.Args ''id''
     (Some (GqlType ''NON_NULL'' [] (Some (GqlType ''SCALAR'' ''ID'' None)))) None"

definition exampleToken :: Args where
  "exampleToken = Args.Args ''token''
     (Some (GqlType ''NON_NULL'' [] (Some (GqlType ''SCALAR'' ''String'' None))))
     (Some ''abc'')"

definition exampleMetadata :: "string \<Rightarrow> string \<Rightarrow> ast_Selection list \<Rightarrow> remoteGraphqlMetadata" where
  "exampleMetadata parent operationType selections =
     \<lparr>parentType = ast_Definition parent [],
      parentField = ast_FieldDefinition ''getPost''
        [ast_ArgumentDefinition ''id'' (NonNull (Named ''ID''))] (Named ''Post''),
      graphqlOpDef = ast_OperationDefinition operationType selections,
      url = ''http://remote/graphql'',
      schema = ast_Schema [''Post'' \<mapsto> ast_Definition ''Post''
        [ast_FieldDefinition ''title'' [] (Named ''String'')]]\<rparr>"

definition exampleSelection :: ast_Selection where
  "exampleSelection = Field (ast_Field ''getPost'' [ast_Argument ''id'' ''$id''])"

lemmas example_defs = exampleSchema_def examplePost_def exampleQuery_def exampleId_def
  exampleToken_def exampleMetadata_def exampleSelection_def builtinScalars_def

section \<open>Lemmas on the range over a map\<close>

text \<open>
  When \<open>ord\<close> returns the keys of the map in some order, the range visits the entries
  of the map.
\<close>

lemma set_map_filter: "set (List.map_filter f xs) = {y. \<exists>x\<in>set xs. f x = Some y}"
  by (induction xs) (auto split: option.splits)

lemma rangeMap_set:
  assumes "distinct (map fst m)" and "set (ord (map fst m)) = set (map fst m)"
  shows "set (rangeMap ord m) = set m"
proof -
  have "set (rangeMap ord m) = {(k, v). k \<in> set (ord (map fst m)) \<and> map_of m k = Some v}"
    by (auto simp: rangeMap_def set_map_filter)
  also have "\<dots> = {(k, v). map_of m k = Some v}"
    using assms(2) by (auto dest: map_of_SomeD intro: rev_image_eqI)
  also have "\<dots> = set m"
    using assms(1) by (auto dest: map_of_SomeD)
  finally show ?thesis .
qed

section \<open>Lemmas on the expansion\<close>

lemma expandArgRecursively_grows:
  "expandArgRecursively sc arg param = (e, q) \<Longrightarrow> grows param q"
  using expand_grows_dom(1)[of sc arg param] expandArgRecursively_total by auto

lemma expandArgRecursively_types_grows:
  "expandArgRecursively_types sc arg ts typeFound param = (r, q) \<Longrightarrow> grows param q"
  using expand_grows_dom(2)[of sc arg ts typeFound param] expandArgRecursively_total by auto

lemma expandArgRecursively_fields_grows:
  "expandArgRecursively_fields sc fs param = (e, q) \<Longrightarrow> grows param q"
  using expand_grows_dom(3)[of sc fs param] expandArgRecursively_total by auto

lemma expandArgRecursively_inputFields_grows:
  "expandArgRecursively_inputFields sc fs param = (e, q) \<Longrightarrow> grows param q"
  using expand_grows_dom(4)[of sc fs param] expandArgRecursively_total by auto

lemma expandArgRecursively_types_no_match:
  "arg \<notin> Types.Name ` set ts \<Longrightarrow>
   expandArgRecursively_types sc arg ts typeFound param = ((None, typeFound), param)"
  by (induction ts) auto

lemma expandArgRecursively_visited:
  "arg \<in> expandedTypes param \<Longrightarrow> expandArgRecursively sc arg param = (None, param)"
  by (simp add: expandArgRecursively.simps)

lemma expandArgRecursively_missing:
  assumes "arg \<notin> expandedTypes param" and "arg \<notin> Types.Name ` set (remoteTypes param)"
  shows "expandArgRecursively sc arg param =
    (Some (Err (RemoteTypeNotFound arg)), param\<lparr>expandedTypes := insert arg (expandedTypes param)\<rparr>)"
  using assms
  by (simp add: expandArgRecursively.simps [of sc arg param] remoteTypes_def
      expandArgRecursively_types_no_match)


lemma grows_typeNames: "grows p q \<Longrightarrow> typeNames q = typeNames p"
  by (simp add: grows_def typeNames_def remoteTypes_def)

lemma grows_subset: "grows p q \<Longrightarrow> expandedTypes p \<subseteq> expandedTypes q"
  by (simp add: grows_def)

lemma typeNames_update [simp]:
  "typeNames (p\<lparr>typesToFields := m\<rparr>) = typeNames p"
  "typeNames (p\<lparr>expandedTypes := v\<rparr>) = typeNames p"
  by (simp_all add: typeNames_def remoteTypes_def)

lemma expand_found:
  "\<And>q. expandArgRecursively sc arg param = (None, q) \<Longrightarrow>
     expandedTypes q \<subseteq> expandedTypes param \<union> typeNames param"
  "\<And>tf' q. expandArgRecursively_types sc arg ts typeFound param = ((None, tf'), q) \<Longrightarrow>
     expandedTypes q \<subseteq> expandedTypes param \<union> typeNames param
     \<and> (tf' \<longrightarrow> typeFound \<or> arg \<in> Types.Name ` set ts)"
  "\<And>q. expandArgRecursively_fields sc fs param = (None, q) \<Longrightarrow>
     expandedTypes q \<subseteq> expandedTypes param \<union> typeNames param"
  "\<And>q. expandArgRecursively_inputFields sc fs' param = (None, q) \<Longrightarrow>
     expandedTypes q \<subseteq> expandedTypes param \<union> typeNames param"
proof (induct sc arg param and sc arg ts typeFound param and sc fs param and sc fs' param
    rule: expandArgRecursively_expandArgRecursively_types_expandArgRecursively_fields_expandArgRecursively_inputFields.induct)
  case (1 sc arg param)
  show ?case
  proof (cases "arg \<in> expandedTypes param")
    case True
    with 1(2) show ?thesis by (simp add: expandArgRecursively.simps)
  next
    case False
    let ?p = "param\<lparr>expandedTypes := insert arg (expandedTypes param)\<rparr>"
    let ?ts = "IntrospectionSchema.Types (Schema (Data (introspectedSchema param)))"
    from 1(2) False obtain tf' where
      r: "expandArgRecursively_types sc arg ?ts False ?p = ((None, tf'), q)" and tf: "tf'"
      by (auto simp: expandArgRecursively.simps [of sc arg param]
          split: prod.splits option.splits if_splits)
    from 1(1)[OF False r] tf show ?thesis
      by (auto simp: typeNames_def remoteTypes_def)
  qed
next
  case (2 sc arg typeFound param)
  then show ?case by simp
next
  case (3 sc arg inputType rest typeFound param)
  show ?case
  proof (cases "Types.Name inputType = arg")
    case False
    with 3(4)[OF False] 3(5) show ?thesis by auto
  next
    case True
    let ?p1 = "param\<lparr>typesToFields :=
                   AList.update (Types.Name inputType) (Types.Fields inputType)
                     (typesToFields param)\<rparr>"
    from 3(5) True obtain y where
      xy: "expandArgRecursively_fields sc (Types.Fields inputType) ?p1 = (None, y)"
      by (auto split: prod.splits option.splits)
    let ?p3 = "y\<lparr>typesToFields :=
                        AList.update (Types.Name inputType)
                          (lookupFields (typesToFields y) (Types.Name inputType)
                             @ Types.InputFields inputType)
                          (typesToFields y)\<rparr>"
    from 3(5) True xy obtain ya where
      xya: "expandArgRecursively_inputFields sc (Types.InputFields inputType) ?p3 = (None, ya)"
      by (auto split: prod.splits option.splits)
    from 3(5) True xy xya have rest: "expandArgRecursively_types sc arg rest True ya = ((None, tf'), q)"
      by simp
    note g1 = expandArgRecursively_fields_grows[OF xy]
    note g2 = expandArgRecursively_inputFields_grows[OF xya]
    from 3(1)[OF True xy] have s1: "expandedTypes y \<subseteq> expandedTypes param \<union> typeNames param"
      by simp
    from 3(2)[OF True xy[symmetric] refl xya]
    have s2: "expandedTypes ya \<subseteq> expandedTypes y \<union> typeNames y" by simp
    from 3(3)[OF True xy[symmetric] refl xya[symmetric] refl rest]
    have s3: "expandedTypes q \<subseteq> expandedTypes ya \<union> typeNames ya" by simp
    from g1 g2 have "typeNames y = typeNames param" "typeNames ya = typeNames param"
      by (auto dest: grows_typeNames)
    with s1 s2 s3 True show ?thesis by auto
  qed
next
  case (4 sc param)
  then show ?case by simp
next
  case (5 sc field rest param)
  show ?case
  proof (cases "GqlField.Type field")
    case None
    with 5(4) show ?thesis by simp
  next
    case (Some t)
    show ?thesis
    proof (cases "GqlType.Name t \<in> sc")
      case True
      with 5(1)[OF Some True] 5(4) Some show ?thesis by simp
    next
      case False
      from 5(4) Some False obtain n where n: "GqlType_NamedType (Some t) = Inr n"
        by (auto split: sum.splits)
      from 5(4) Some False n obtain y where
        xy: "expandArgRecursively sc n param = (None, y)"
        and rest: "expandArgRecursively_fields sc rest y = (None, q)"
        by (auto split: prod.splits option.splits)
      from 5(2)[OF Some False n xy]
      have s1: "expandedTypes y \<subseteq> expandedTypes param \<union> typeNames param" .
      from 5(3)[OF Some False n xy[symmetric] refl rest]
      have s2: "expandedTypes q \<subseteq> expandedTypes y \<union> typeNames y" .
      from expandArgRecursively_grows[OF xy] have "typeNames y = typeNames param"
        by (rule grows_typeNames)
      with s1 s2 show ?thesis by auto
    qed
  qed
next
  case (6 sc param)
  then show ?case by simp
next
  case (7 sc field rest param)
  from 7(4) obtain n where n: "GqlType_NamedType (GqlField.Type field) = Inr n"
    by (auto split: sum.splits)
  show ?case
  proof (cases "n \<in> sc")
    case True
    with 7(1)[OF n True] 7(4) n show ?thesis by simp
  next
    case False
    from 7(4) n False obtain y where
      xy: "expandArgRecursively sc n param = (None, y)"
      and rest: "expandArgRecursively_inputFields sc rest y = (None, q)"
      by (auto split: prod.splits option.splits)
    from 7(2)[OF n False xy]
    have s1: "expandedTypes y \<subseteq> expandedTypes param \<union> typeNames param" .
    from 7(3)[OF n False xy[symmetric] refl rest]
    have s2: "expandedTypes q \<subseteq> expandedTypes y \<union> typeNames y" .
    from expandArgRecursively_grows[OF xy] have "typeNames y = typeNames param"
      by (rule grows_typeNames)
    with s1 s2 show ?thesis by auto
  qed
qed


lemma expandArgRecursively_marks:
  "expandArgRecursively sc arg param = (e, q) \<Longrightarrow> arg \<in> expandedTypes q"
proof (cases "arg \<in> expandedTypes param")
  case True
  assume "expandArgRecursively sc arg param = (e, q)"
  with True show ?thesis by (simp add: expandArgRecursively.simps)
next
  case False
  assume r: "expandArgRecursively sc arg param = (e, q)"
  let ?p = "param\<lparr>expandedTypes := insert arg (expandedTypes param)\<rparr>"
  obtain x where "expandArgRecursively_types sc arg
      (IntrospectionSchema.Types (Schema (Data (introspectedSchema param)))) False ?p = (x, q)"
    using r False
    by (auto simp: expandArgRecursively.simps [of sc arg param]
        split: prod.splits option.splits if_splits)
  from expandArgRecursively_types_grows[OF this] show ?thesis
    by (auto simp: grows_def)
qed

lemma expandArgRecursively_fields_pass:
  assumes "GqlType_NamedType (GqlField.Type f) = Inr n" and "n \<in> expandedTypes param"
  shows "expandArgRecursively_fields sc (f # rest) param = expandArgRecursively_fields sc rest param"
proof (cases "GqlField.Type f")
  case None
  with assms show ?thesis by simp
next
  case (Some t)
  with assms show ?thesis by (simp add: expandArgRecursively_visited)
qed

lemma expandArgRecursively_inputFields_pass:
  assumes "GqlType_NamedType (GqlField.Type f) = Inr n" and "n \<in> expandedTypes param"
  shows "expandArgRecursively_inputFields sc (f # rest) param =
    expandArgRecursively_inputFields sc rest param"
  using assms by (simp add: expandArgRecursively_visited)

lemma expandArgRecursively_fields_skip:
  assumes "\<forall>f\<in>set fs. \<exists>t. GqlField.Type f = Some t \<and>
      (GqlType.Name t \<in> sc \<or> (\<exists>n. GqlType_NamedType (Some t) = Inr n \<and> n \<in> expandedTypes param))"
  shows "expandArgRecursively_fields sc fs param = (None, param)"
  using assms by (induction fs) (auto simp: expandArgRecursively_visited)

lemma expandArgRecursively_inputFields_skip:
  assumes "\<forall>f\<in>set fs. \<exists>n. GqlType_NamedType (GqlField.Type f) = Inr n \<and>
      (n \<in> sc \<or> n \<in> expandedTypes param)"
  shows "expandArgRecursively_inputFields sc fs param = (None, param)"
  using assms by (induction fs) (auto simp: expandArgRecursively_visited)

lemma expandArgRecursively_types_prefix:
  "arg \<notin> Types.Name ` set ts1 \<Longrightarrow>
   expandArgRecursively_types sc arg (ts1 @ ts) typeFound param =
   expandArgRecursively_types sc arg ts typeFound param"
  by (induction ts1) auto

lemma expandArgRecursively_closed:
  assumes new: "arg \<notin> expandedTypes param"
    and ts: "remoteTypes param = ts1 @ t # ts2" "Types.Name t = arg"
      "arg \<notin> Types.Name ` set ts1" "arg \<notin> Types.Name ` set ts2"
    and fs: "\<forall>f\<in>set (Types.Fields t). \<exists>ty. GqlField.Type f = Some ty \<and>
      (GqlType.Name ty \<in> sc \<or>
       (\<exists>n. GqlType_NamedType (Some ty) = Inr n \<and> n \<in> insert arg (expandedTypes param)))"
    and ifs: "\<forall>f\<in>set (Types.InputFields t). \<exists>n. GqlType_NamedType (GqlField.Type f) = Inr n \<and>
      (n \<in> sc \<or> n \<in> insert arg (expandedTypes param))"
  shows "expandArgRecursively sc arg param =
    (None, param\<lparr>expandedTypes := insert arg (expandedTypes param),
                  typesToFields := AList.update arg (Types.Fields t @ Types.InputFields t)
                                     (typesToFields param)\<rparr>)"
proof -
  let ?p = "param\<lparr>expandedTypes := insert arg (expandedTypes param)\<rparr>"
  let ?p1 = "?p\<lparr>typesToFields := AList.update arg (Types.Fields t) (typesToFields ?p)\<rparr>"
  let ?p3 = "?p1\<lparr>typesToFields := AList.update arg
      (lookupFields (typesToFields ?p1) arg @ Types.InputFields t) (typesToFields ?p1)\<rparr>"
  have f1: "expandArgRecursively_fields sc (Types.Fields t) ?p1 = (None, ?p1)"
    by (rule expandArgRecursively_fields_skip) (use fs in simp)
  have f3: "expandArgRecursively_inputFields sc (Types.InputFields t) ?p3 = (None, ?p3)"
    by (rule expandArgRecursively_inputFields_skip) (use ifs in simp)
  have "expandArgRecursively_types sc arg (t # ts2) False ?p = ((None, True), ?p3)"
    using ts(2) ts(4) f1 f3 by (simp add: expandArgRecursively_types_no_match)
  then have "expandArgRecursively_types sc arg (remoteTypes param) False ?p = ((None, True), ?p3)"
    using ts(1) ts(3) by (simp add: expandArgRecursively_types_prefix)
  moreover have "?p3 = param\<lparr>expandedTypes := insert arg (expandedTypes param),
                  typesToFields := AList.update arg (Types.Fields t @ Types.InputFields t)
                                     (typesToFields param)\<rparr>"
    by (simp add: lookupFields_def update_conv' AList.update_last)
  ultimately show ?thesis
    using new by (simp add: expandArgRecursively.simps [of sc arg param] remoteTypes_def)
qed


lemma expandArgs_seeds_append:
  "expandArgs_seeds sc (pre @ rest) param =
     (case expandArgs_seeds sc pre param of
        (Some e, q) \<Rightarrow> (Some e, q)
      | (None, q) \<Rightarrow> expandArgs_seeds sc rest q)"
  by (induction pre arbitrary: param) (auto split: sum.splits prod.splits option.splits)

lemma expandArgs_seeds_found:
  "expandArgs_seeds sc seeds param = (None, q) \<Longrightarrow>
   grows param q \<and> expandedTypes q \<subseteq> expandedTypes param \<union> typeNames param"
proof (induction seeds arbitrary: param)
  case Nil
  then show ?case by simp
next
  case (Cons s seeds)
  obtain key seed where s: "s = (key, seed)" by (cases s)
  from Cons.prems s obtain n where n: "GqlType_NamedType (Args.Type seed) = Inr n"
    by (auto split: sum.splits)
  show ?case
  proof (cases "n \<in> sc")
    case True
    with Cons s n show ?thesis by simp
  next
    case False
    from Cons.prems s n False obtain y where
      xy: "expandArgRecursively sc n param = (None, y)"
      and rest: "expandArgs_seeds sc seeds y = (None, q)"
      by (auto split: prod.splits option.splits)
    note g = expandArgRecursively_grows[OF xy]
    from Cons.IH[OF rest] expand_found(1)[OF xy] g grows_typeNames[OF g]
    show ?thesis by (auto intro: grows_trans)
  qed
qed

lemma expandArgs_seeds_fail:
  assumes "GqlType_NamedType (Args.Type seed) = Inr arg" and "arg \<notin> sc"
  shows "(key, seed) \<in> set seeds \<Longrightarrow> arg \<notin> expandedTypes param \<Longrightarrow>
    arg \<notin> typeNames param \<Longrightarrow> fst (expandArgs_seeds sc seeds param) \<noteq> None"
proof (induction seeds arbitrary: param)
  case Nil
  then show ?case by simp
next
  case (Cons s seeds)
  obtain k' seed' where s: "s = (k', seed')" by (cases s)
  show ?case
  proof (cases "s = (key, seed)")
    case True
    with assms Cons.prems show ?thesis
      by (simp add: expandArgRecursively_missing typeNames_def)
  next
    case False
    with Cons.prems have mem: "(key, seed) \<in> set seeds" by simp
    show ?thesis
    proof (cases "GqlType_NamedType (Args.Type seed')")
      case (Inl f)
      with s show ?thesis by simp
    next
      case (Inr n)
      show ?thesis
      proof (cases "n \<in> sc")
        case True
        with Cons.IH[OF mem Cons.prems(2,3)] s Inr show ?thesis by simp
      next
        case nsc: False
        obtain x y where xy: "expandArgRecursively sc n param = (x, y)"
          by (cases "expandArgRecursively sc n param")
        show ?thesis
        proof (cases x)
          case (Some e)
          with s Inr nsc xy show ?thesis by simp
        next
          case None
          note g = expandArgRecursively_grows[OF xy]
          from expand_found(1)[OF xy[unfolded None]] Cons.prems(2,3)
          have "arg \<notin> expandedTypes y" by auto
          moreover from grows_typeNames[OF g] Cons.prems(3) have "arg \<notin> typeNames y" by simp
          ultimately have "fst (expandArgs_seeds sc seeds y) \<noteq> None"
            by (rule Cons.IH[OF mem])
          with s Inr nsc xy None show ?thesis by simp
        qed
      qed
    qed
  qed
qed

lemma GqlType_NamedType_fault: "GqlType_NamedType t = Inl f \<Longrightarrow> f = Panic NilPointerDereference"
  by (induction t rule: GqlType_NamedType.induct) (auto split: if_splits)

lemma expand_fault:
  "\<And>f q. expandArgRecursively sc arg param = (Some f, q) \<Longrightarrow> laterFault f"
  "\<And>f tf' q. expandArgRecursively_types sc arg ts typeFound param = ((Some f, tf'), q) \<Longrightarrow>
     laterFault f"
  "\<And>f q. expandArgRecursively_fields sc fs param = (Some f, q) \<Longrightarrow> laterFault f"
  "\<And>f q. expandArgRecursively_inputFields sc fs' param = (Some f, q) \<Longrightarrow> laterFault f"
proof (induct sc arg param and sc arg ts typeFound param and sc fs param and sc fs' param
    rule: expandArgRecursively_expandArgRecursively_types_expandArgRecursively_fields_expandArgRecursively_inputFields.induct)
  case (1 sc arg param)
  from 1(2) have new: "arg \<notin> expandedTypes param"
    by (auto simp: expandArgRecursively.simps [of sc arg param] split: if_splits)
  obtain x tf' y where r: "expandArgRecursively_types sc arg
      (IntrospectionSchema.Types (Schema (Data (introspectedSchema param)))) False
      (param\<lparr>expandedTypes := insert arg (expandedTypes param)\<rparr>) = ((x, tf'), y)"
    by (metis surj_pair)
  show ?case
  proof (cases x)
    case None
    with 1(2) new r show ?thesis
      by (auto simp: expandArgRecursively.simps [of sc arg param] laterFault_def
          split: if_splits)
  next
    case (Some e)
    with 1(2) new r have "f = e"
      by (auto simp: expandArgRecursively.simps [of sc arg param])
    with 1(1)[OF new r[unfolded Some]] show ?thesis by simp
  qed
next
  case (2 sc arg typeFound param)
  then show ?case by simp
next
  case (3 sc arg inputType rest typeFound param)
  show ?case
  proof (cases "Types.Name inputType = arg")
    case False
    with 3(4)[OF False] 3(5) show ?thesis by auto
  next
    case True
    let ?p1 = "param\<lparr>typesToFields :=
                   AList.update (Types.Name inputType) (Types.Fields inputType)
                     (typesToFields param)\<rparr>"
    obtain x y where xy: "expandArgRecursively_fields sc (Types.Fields inputType) ?p1 = (x, y)"
      by (metis surj_pair)
    show ?thesis
    proof (cases x)
      case (Some e)
      with 3(5) True xy have "f = e" by simp
      with 3(1)[OF True xy[unfolded Some]] show ?thesis by simp
    next
      case None
      let ?p3 = "y\<lparr>typesToFields :=
                        AList.update (Types.Name inputType)
                          (lookupFields (typesToFields y) (Types.Name inputType)
                             @ Types.InputFields inputType)
                          (typesToFields y)\<rparr>"
      obtain xa ya where
        xya: "expandArgRecursively_inputFields sc (Types.InputFields inputType) ?p3 = (xa, ya)"
        by (metis surj_pair)
      show ?thesis
      proof (cases xa)
        case (Some e)
        with 3(5) True xy None xya have "f = e" by simp
        with 3(2)[OF True xy[symmetric] None xya[unfolded Some]] show ?thesis by simp
      next
        case None2: None
        from 3(5) True xy None xya None2
        have "expandArgRecursively_types sc arg rest True ya = ((Some f, tf'), q)" by simp
        from 3(3)[OF True xy[symmetric] None xya[symmetric] None2 this] show ?thesis .
      qed
    qed
  qed
next
  case (4 sc param)
  then show ?case by simp
next
  case (5 sc field rest param)
  show ?case
  proof (cases "GqlField.Type field")
    case None
    with 5(4) show ?thesis by (auto simp: laterFault_def)
  next
    case (Some t)
    show ?thesis
    proof (cases "GqlType.Name t \<in> sc")
      case True
      with 5(1)[OF Some True] 5(4) Some show ?thesis by simp
    next
      case False
      show ?thesis
      proof (cases "GqlType_NamedType (Some t)")
        case (Inl e)
        with 5(4) Some False GqlType_NamedType_fault[OF Inl] show ?thesis
          by (auto simp: laterFault_def)
      next
        case (Inr n)
        obtain x y where xy: "expandArgRecursively sc n param = (x, y)" by (metis surj_pair)
        show ?thesis
        proof (cases x)
          case (Some e)
          with 5(4) \<open>GqlField.Type field = Some t\<close> False Inr xy have "f = e" by simp
          with 5(2)[OF \<open>GqlField.Type field = Some t\<close> False Inr xy[unfolded Some]]
          show ?thesis by simp
        next
          case None
          with 5(4) \<open>GqlField.Type field = Some t\<close> False Inr xy
          have "expandArgRecursively_fields sc rest y = (Some f, q)" by simp
          from 5(3)[OF \<open>GqlField.Type field = Some t\<close> False Inr xy[symmetric] None this]
          show ?thesis .
        qed
      qed
    qed
  qed
next
  case (6 sc param)
  then show ?case by simp
next
  case (7 sc field rest param)
  show ?case
  proof (cases "GqlType_NamedType (GqlField.Type field)")
    case (Inl e)
    with 7(4) GqlType_NamedType_fault[OF Inl] show ?thesis by (auto simp: laterFault_def)
  next
    case (Inr n)
    show ?thesis
    proof (cases "n \<in> sc")
      case True
      with 7(1)[OF Inr True] 7(4) Inr show ?thesis by simp
    next
      case False
      obtain x y where xy: "expandArgRecursively sc n param = (x, y)" by (metis surj_pair)
      show ?thesis
      proof (cases x)
        case (Some e)
        with 7(4) Inr False xy have "f = e" by simp
        with 7(2)[OF Inr False xy[unfolded Some]] show ?thesis by simp
      next
        case None
        with 7(4) Inr False xy
        have "expandArgRecursively_inputFields sc rest y = (Some f, q)" by simp
        from 7(3)[OF Inr False xy[symmetric] None this] show ?thesis .
      qed
    qed
  qed
qed

lemma expandArgs_seeds_fault:
  "expandArgs_seeds sc seeds param = (Some f, q) \<Longrightarrow> laterFault f"
proof (induction seeds arbitrary: param)
  case Nil
  then show ?case by simp
next
  case (Cons s seeds)
  obtain key seed where s: "s = (key, seed)" by (cases s)
  show ?case
  proof (cases "GqlType_NamedType (Args.Type seed)")
    case (Inl e)
    with Cons.prems s GqlType_NamedType_fault[OF Inl] show ?thesis
      by (auto simp: laterFault_def)
  next
    case (Inr n)
    show ?thesis
    proof (cases "n \<in> sc")
      case True
      with Cons s Inr show ?thesis by simp
    next
      case False
      obtain x y where xy: "expandArgRecursively sc n param = (x, y)" by (metis surj_pair)
      show ?thesis
      proof (cases x)
        case (Some e)
        with Cons.prems s Inr False xy have "f = e" by simp
        with expand_fault(1)[OF xy[unfolded Some]] show ?thesis by simp
      next
        case None
        with Cons.prems s Inr False xy have "expandArgs_seeds sc seeds y = (Some f, q)" by simp
        then show ?thesis by (rule Cons.IH)
      qed
    qed
  qed
qed

lemma expandArgs_fault: "expandArgs ord sc argToVal remoteSchema = Inl f \<Longrightarrow> laterFault f"
  by (auto simp: expandArgs_def split: prod.splits option.splits dest: expandArgs_seeds_fault)

section \<open>Lemmas on the arguments and on the faults of the validation\<close>

lemma getGivenQueryArgsAsMap_args_fault:
  "getGivenQueryArgsAsMap_args m args acc = Inl f \<Longrightarrow> laterFault f"
  by (induction m args acc rule: getGivenQueryArgsAsMap_args.induct)
    (auto simp: laterFault_def Let_def split: if_splits)

lemma getGivenQueryArgsAsMap_fault:
  "getGivenQueryArgsAsMap givenQuery localField localType = Inl f \<Longrightarrow> laterFault f"
  by (auto simp: getGivenQueryArgsAsMap_def split: if_splits
      dest: getGivenQueryArgsAsMap_args_fault)

lemma getRemoteQueryArgsAsMap_args_fault:
  "getRemoteQueryArgsAsMap_args args acc = Inl f \<Longrightarrow> laterFault f"
  by (induction args acc rule: getRemoteQueryArgsAsMap_args.induct)
    (auto simp: laterFault_def split: option.splits)

lemma getRemoteQueryArgsAsMap_fault:
  "getRemoteQueryArgsAsMap remoteQuery = Inl f \<Longrightarrow> laterFault f"
  by (auto simp: getRemoteQueryArgsAsMap_def dest: getRemoteQueryArgsAsMap_args_fault)

lemma checkGivenArgs_fault:
  "checkGivenArgs operationType name defs vals given = Some f \<Longrightarrow> laterFault f"
  by (induction operationType name defs vals given rule: checkGivenArgs.induct)
    (auto simp: laterFault_def Let_def split: option.splits if_splits)

lemma checkRequiredArgs_fault:
  "checkRequiredArgs operationType name vals required = Some f \<Longrightarrow> laterFault f"
  by (induction required) (auto simp: laterFault_def split: option.splits)

lemma checkExpandedFields_fault:
  "checkExpandedFields localType typeName fs = Some f \<Longrightarrow> laterFault f"
  by (induction fs) (auto simp: laterFault_def split: option.splits if_splits)

lemma checkExpandedTypes_fault:
  "checkExpandedTypes localSchema expanded = Some f \<Longrightarrow> laterFault f"
  by (induction localSchema expanded rule: checkExpandedTypes.induct)
    (auto simp: laterFault_def split: option.splits dest: checkExpandedFields_fault)

lemma validateRemoteGraphql_later_fault:
  assumes "introspectRemoteSchema (url metadata) = Inr remoteIntrospection"
    and "SelectionSet (graphqlOpDef metadata) = Field givenQuery # others"
    and "validateRemoteGraphql ord sc returnType introspectRemoteSchema metadata = Inl f"
  shows "laterFault f"
  using assms
  by (auto simp: validateRemoteGraphql_def Let_def laterFault_def [of "Err e" for e]
      split: if_splits option.splits sum.splits prod.splits
      dest: getGivenQueryArgsAsMap_fault getRemoteQueryArgsAsMap_fault checkGivenArgs_fault
        checkRequiredArgs_fault expandArgs_fault checkExpandedTypes_fault)

lemma requiredNames_simps [simp]:
  "requiredNames [] = []"
  "requiredNames (xs @ ys) = requiredNames xs @ requiredNames ys"
  "requiredNames (Args.Args n (Some (GqlType k nm inner)) d # xs) =
     (if k = ''NON_NULL'' then n # requiredNames xs else requiredNames xs)"
  by (simp_all add: requiredNames_def)

lemma requiredNames_Cons:
  "requiredNames (a # args) =
     (case Args.Type a of
        None \<Rightarrow> []
      | Some t \<Rightarrow> if GqlType.Kind t = ''NON_NULL'' then [Args.Name a] else [])
     @ requiredNames args"
  by (simp add: requiredNames_def split: option.splits)

lemma getRemoteQueryArgsAsMap_args_required:
  "getRemoteQueryArgsAsMap_args args (m, req) = Inr (m', req') \<Longrightarrow>
   req' = req @ requiredNames args"
proof (induction args arbitrary: m req)
  case Nil
  then show ?case by simp
next
  case (Cons a args)
  from Cons.prems obtain t where t: "Args.Type a = Some t"
    by (cases "Args.Type a") auto
  let ?req = "if GqlType.Kind t = ''NON_NULL'' then req @ [Args.Name a] else req"
  from Cons.prems t
  have "getRemoteQueryArgsAsMap_args args (AList.update (Args.Name a) a m, ?req) = Inr (m', req')"
    by simp
  from Cons.IH[OF this] t show ?case by (simp add: requiredNames_Cons)
qed

lemma getRemoteQueryArgsAsMap_args_typed:
  "\<forall>a\<in>set args. Args.Type a \<noteq> None \<Longrightarrow>
   \<exists>m'. getRemoteQueryArgsAsMap_args args (m, req) = Inr (m', req @ requiredNames args)"
proof (induction args arbitrary: m req)
  case Nil
  then show ?case by simp
next
  case (Cons a args)
  from Cons.prems obtain t where t: "Args.Type a = Some t" by auto
  let ?req = "if GqlType.Kind t = ''NON_NULL'' then req @ [Args.Name a] else req"
  from Cons.prems have "\<forall>a\<in>set args. Args.Type a \<noteq> None" by simp
  from Cons.IH[OF this, of "AList.update (Args.Name a) a m" ?req] t
  show ?case by (cases "GqlType.Kind t = ''NON_NULL''") (simp_all add: requiredNames_Cons)
qed

lemma getRemoteQueryArgsAsMap_required:
  "getRemoteQueryArgsAsMap remoteQuery = Inr (m, req) \<Longrightarrow>
   req = requiredNames (GqlField.Args remoteQuery)"
  using getRemoteQueryArgsAsMap_args_required[of "GqlField.Args remoteQuery" "[]" "[]" m req]
  by (simp add: getRemoteQueryArgsAsMap_def)

lemma getRemoteQueryArgsAsMap_typed:
  "\<forall>a\<in>set (GqlField.Args remoteQuery). Args.Type a \<noteq> None \<Longrightarrow>
   \<exists>m. getRemoteQueryArgsAsMap remoteQuery = Inr (m, requiredNames (GqlField.Args remoteQuery))"
  using getRemoteQueryArgsAsMap_args_typed[of "GqlField.Args remoteQuery" "[]" "[]"]
  by (simp add: getRemoteQueryArgsAsMap_def)

lemma getGivenQueryArgsAsMap_args_dom:
  "getGivenQueryArgsAsMap_args pm args (d, v) = Inr (d', v') \<Longrightarrow>
   dom v' \<subseteq> dom v \<union> ast_Argument.Name ` set args"
proof (induction args arbitrary: d v)
  case Nil
  then show ?case by simp
next
  case (Cons a args)
  from Cons.prems have "getGivenQueryArgsAsMap_args pm args
      (AList.update (ast_Argument.Name a) (pm (tl (ast_Argument.Value a))) d,
       v(ast_Argument.Name a \<mapsto> ast_Argument.Value a)) = Inr (d', v')"
    by (simp add: Let_def split: if_splits)
  from Cons.IH[OF this] show ?case by auto
qed

lemma getGivenQueryArgsAsMap_dom:
  "getGivenQueryArgsAsMap givenQuery localField localType = Inr (d, v) \<Longrightarrow>
   dom v \<subseteq> ast_Argument.Name ` set (ast_Field.Arguments givenQuery)"
  by (auto simp: getGivenQueryArgsAsMap_def split: if_splits
      dest!: getGivenQueryArgsAsMap_args_dom)

lemma checkRequiredArgs_missing:
  "n \<in> set required \<Longrightarrow> vals n = None \<Longrightarrow>
   checkRequiredArgs operationType name vals required \<noteq> None"
  by (induction required) (auto split: option.splits)

lemma checkRequiredArgs_first:
  "set pre \<subseteq> dom vals \<Longrightarrow> vals n = None \<Longrightarrow>
   checkRequiredArgs operationType name vals (pre @ n # post)
     = Some (Err (RequiredArgMissing operationType name n))"
  by (induction pre) (auto split: option.splits)

lemma requiredNames_member:
  "Args.Args argName (Some (GqlType ''NON_NULL'' nm inner)) defaultValue \<in> set args \<Longrightarrow>
   argName \<in> set (requiredNames args)"
  by (force simp: requiredNames_def)

section \<open>Rendering and naming of type references\<close>

text \<open>
  Claim C7. The canonical string of a remote type reference is the GraphQL type syntax
  for every nesting of named types, lists and non-nulls: a list renders as its inner
  type in brackets, a non-null as its inner type followed by an exclamation mark, any
  other kind as its name; the encoding of every type reference renders as the type
  syntax of that reference, and non-null of list of non-null of \<open>Foo\<close> renders as
  \<open>[Foo!]!\<close>.
\<close>

theorem GqlType_String_type_syntax:
  "GqlType_String (Some (GqlType ''LIST'' name inner)) = ''['' @ GqlType_String inner @ '']''
   \<and> GqlType_String (Some (GqlType ''NON_NULL'' name inner)) = GqlType_String inner @ ''!''
   \<and> (k \<noteq> ''LIST'' \<and> k \<noteq> ''NON_NULL'' \<longrightarrow>
        GqlType_String (Some (GqlType k name inner)) = name
        \<and> GqlType_String (Some (introspected k t)) = ast_Type_String t)
   \<and> GqlType_String (Some (GqlType ''NON_NULL'' [] (Some (GqlType ''LIST'' [] (Some
         (GqlType ''NON_NULL'' [] (Some (GqlType ''OBJECT'' ''Foo'' None)))))))) = ''[Foo!]!''"
proof -
  have "GqlType_String (Some (introspected k t)) = ast_Type_String t"
    if "k \<noteq> ''LIST''" "k \<noteq> ''NON_NULL''"
    using that by (induction t) simp_all
  then show ?thesis by simp
qed

theorem GqlType_String_type_syntax_witness:
  "GqlType_String (Some (GqlType ''LIST'' [] (Some (GqlType ''SCALAR'' ''Int'' None)))) = ''[Int]''
   \<and> GqlType_String (Some (GqlType ''NON_NULL'' [] (Some (GqlType ''SCALAR'' ''Int'' None)))) = ''Int!''
   \<and> GqlType_String (Some (GqlType ''SCALAR'' ''Int'' None)) = ''Int''
   \<and> GqlType_String (Some (introspected ''OBJECT'' (NonNull (List (NonNull (Named ''Foo''))))))
       = ''[Foo!]!''"
  using GqlType_String_type_syntax [of "[]" "Some (GqlType ''SCALAR'' ''Int'' None)"
      "''OBJECT''" "NonNull (List (NonNull (Named ''Foo'')))"]
    GqlType_String_type_syntax [of "''Int''" None "''SCALAR''" "Named ''Int''"]
  by simp

text \<open>
  Claim C10. \<^verbatim>\<open>NamedType\<close> returns the name at the shallowest level of the
  \<^verbatim>\<open>ofType\<close> chain that carries a non-empty name; when no level carries one, the chain
  ends in nil and the call dereferences a nil pointer.
\<close>

theorem GqlType_NamedType_shallowest_name:
  "GqlType_NamedType t =
     (case find (\<lambda>name. name \<noteq> []) (levelNames t) of
        Some name \<Rightarrow> Inr name
      | None \<Rightarrow> Inl (Panic NilPointerDereference))"
  by (induction t rule: GqlType_NamedType.induct) simp_all

theorem GqlType_NamedType_shallowest_name_witness:
  "GqlType_NamedType (Some (GqlType ''NON_NULL'' [] (Some (GqlType ''LIST'' [] (Some
       (GqlType ''OBJECT'' ''Post'' (Some (GqlType ''OBJECT'' ''Other'' None)))))))) = Inr ''Post''
   \<and> GqlType_NamedType (Some (GqlType ''NON_NULL'' [] (Some (GqlType ''LIST'' [] None))))
       = Inl (Panic NilPointerDereference)
   \<and> GqlType_NamedType None = Inl (Panic NilPointerDereference)"
  using GqlType_NamedType_shallowest_name [of "Some (GqlType ''NON_NULL'' [] (Some
      (GqlType ''LIST'' [] (Some (GqlType ''OBJECT'' ''Post''
         (Some (GqlType ''OBJECT'' ''Other'' None)))))))"]
    GqlType_NamedType_shallowest_name [of "Some (GqlType ''NON_NULL'' [] (Some
      (GqlType ''LIST'' [] None)))"]
    GqlType_NamedType_shallowest_name [of None]
  by simp

section \<open>Expansion of the remote types\<close>

text \<open>
  Claim C6, as the code has it. When the named type of a seed is not a scalar and names
  no type of the remote schema, \<^verbatim>\<open>expandArgs\<close> returns no map, whatever the order of
  the range; it returns the error that the type is not found, naming that type, when
  the range reaches the seed after seeds that expanded without a failure, so that the
  seed is the first to fail; and \<^verbatim>\<open>expandArgRecursively\<close>, a total function, returns
  that error for every name that is neither expanded yet nor a type of the remote
  schema.
\<close>

theorem expandArgs_remote_type_not_found:
  assumes "GqlType_NamedType (Args.Type seed) = Inr arg"
    and "arg \<notin> sc"
    and "arg \<notin> Types.Name ` set (IntrospectionSchema.Types (Schema (Data remoteSchema)))"
  shows "(rangeMap ord argToVal = pre @ (key, seed) # post
          \<and> fst (expandArgs_seeds sc pre (expandArgs_init remoteSchema)) = None
          \<longrightarrow> expandArgs ord sc argToVal remoteSchema = Inl (Err (RemoteTypeNotFound arg)))
       \<and> ((key, seed) \<in> set (rangeMap ord argToVal)
          \<longrightarrow> (\<exists>f. expandArgs ord sc argToVal remoteSchema = Inl f))
       \<and> (introspectedSchema param = remoteSchema \<and> arg \<notin> expandedTypes param
          \<longrightarrow> expandArgRecursively sc arg param =
                (Some (Err (RemoteTypeNotFound arg)),
                 param\<lparr>expandedTypes := insert arg (expandedTypes param)\<rparr>))"
proof (intro conjI impI)
  assume "introspectedSchema param = remoteSchema \<and> arg \<notin> expandedTypes param"
  with assms(3) show "expandArgRecursively sc arg param =
      (Some (Err (RemoteTypeNotFound arg)),
       param\<lparr>expandedTypes := insert arg (expandedTypes param)\<rparr>)"
    by (intro expandArgRecursively_missing) (auto simp: remoteTypes_def)
next
  assume "(key, seed) \<in> set (rangeMap ord argToVal)"
  then have "fst (expandArgs_seeds sc (rangeMap ord argToVal) (expandArgs_init remoteSchema)) \<noteq> None"
    using assms(3)
    by (intro expandArgs_seeds_fail[OF assms(1,2)])
      (auto simp: expandArgs_init_def typeNames_def remoteTypes_def)
  then show "\<exists>f. expandArgs ord sc argToVal remoteSchema = Inl f"
    by (auto simp: expandArgs_def expandArgs_init_def split: prod.splits option.splits)
next
  assume a: "rangeMap ord argToVal = pre @ (key, seed) # post
          \<and> fst (expandArgs_seeds sc pre (expandArgs_init remoteSchema)) = None"
  then obtain q where q: "expandArgs_seeds sc pre (expandArgs_init remoteSchema) = (None, q)"
    by (cases "expandArgs_seeds sc pre (expandArgs_init remoteSchema)") auto
  from expandArgs_seeds_found[OF q] assms(3)
  have "arg \<notin> expandedTypes q" and "arg \<notin> Types.Name ` set (remoteTypes q)"
    by (auto simp: expandArgs_init_def typeNames_def remoteTypes_def grows_def)
  then have "expandArgRecursively sc arg q =
      (Some (Err (RemoteTypeNotFound arg)), q\<lparr>expandedTypes := insert arg (expandedTypes q)\<rparr>)"
    by (rule expandArgRecursively_missing)
  with a q assms(1,2) show "expandArgs ord sc argToVal remoteSchema = Inl (Err (RemoteTypeNotFound arg))"
    by (simp add: expandArgs_def expandArgs_init_def [symmetric] expandArgs_seeds_append)
qed

theorem expandArgs_remote_type_not_found_witness:
  "expandArgs (\<lambda>ks. ks) builtinScalars
     [(''id'', Args.Args ''id'' (Some (GqlType ''NON_NULL'' [] (Some (GqlType ''SCALAR'' ''ID'' None)))) None),
      (''ret'', Args.Args [] (Some (GqlType ''OBJECT'' ''Nope'' None)) None)]
     (exampleSchema [Types.Types ''OBJECT'' ''Post'' [] []])
   = Inl (Err (RemoteTypeNotFound ''Nope''))
   \<and> expandArgRecursively builtinScalars ''Nope''
       (expandArgs_init (exampleSchema [Types.Types ''OBJECT'' ''Post'' [] []]))
     = (Some (Err (RemoteTypeNotFound ''Nope'')),
        \<lparr>expandedTypes = {''Nope''},
         introspectedSchema = exampleSchema [Types.Types ''OBJECT'' ''Post'' [] []],
         typesToFields = []\<rparr>)"
  using expandArgs_remote_type_not_found [where seed = "Args.Args [] (Some (GqlType ''OBJECT'' ''Nope'' None)) None"
      and arg = "''Nope''" and sc = builtinScalars
      and remoteSchema = "exampleSchema [Types.Types ''OBJECT'' ''Post'' [] []]"
      and ord = "\<lambda>ks. ks"
      and argToVal = "[(''id'', Args.Args ''id'' (Some (GqlType ''NON_NULL'' [] (Some (GqlType ''SCALAR'' ''ID'' None)))) None),
      (''ret'', Args.Args [] (Some (GqlType ''OBJECT'' ''Nope'' None)) None)]"
      and pre = "[(''id'', Args.Args ''id'' (Some (GqlType ''NON_NULL'' [] (Some (GqlType ''SCALAR'' ''ID'' None)))) None)]"
      and key = "''ret''" and post = "[]"
      and param = "expandArgs_init (exampleSchema [Types.Types ''OBJECT'' ''Post'' [] []])"]
  by (simp add: builtinScalars_def exampleSchema_def rangeMap_def List.map_filter_def
      expandArgs_init_def)

text \<open>
  The claim C6 as stated, the error naming the type of every such seed, fails with two
  seeds whose types \<open>A\<close> and \<open>B\<close> are both missing from the remote schema: the
  first failure ends the expansion and the error names \<open>A\<close> only.
\<close>

theorem expandArgs_remote_type_not_found_counterexample:
  "expandArgs (\<lambda>ks. ks) builtinScalars
     [(''a'', Args.Args ''a'' (Some (GqlType ''INPUT_OBJECT'' ''A'' None)) None),
      (''b'', Args.Args ''b'' (Some (GqlType ''INPUT_OBJECT'' ''B'' None)) None)]
     (exampleSchema [examplePost])
   = Inl (Err (RemoteTypeNotFound ''A''))
   \<and> expandArgs (\<lambda>ks. ks) builtinScalars
     [(''a'', Args.Args ''a'' (Some (GqlType ''INPUT_OBJECT'' ''A'' None)) None),
      (''b'', Args.Args ''b'' (Some (GqlType ''INPUT_OBJECT'' ''B'' None)) None)]
     (exampleSchema [examplePost])
   \<noteq> Inl (Err (RemoteTypeNotFound ''B''))"
  by (simp add: expandArgs_def rangeMap_def example_defs expandArgRecursively.simps)

text \<open>
  Claim C5. \<^verbatim>\<open>expandArgRecursively\<close> is a total function: the expansion terminates on
  every remote schema. A name that is already expanded returns at once, with no error
  and the parameters unchanged. A name that is not yet expanded is entered into the set
  of the expanded names before the loop over the types, which makes every recursive
  call; after the call the name is expanded, no name has left the set, and a second
  call returns at once. In parameters where a name is expanded, both loops pass over a
  field of that named type. A type whose fields are scalars or of the type itself is
  expanded in one step, with one entry for it in the map of the fields.
\<close>

theorem expandArgRecursively_expands_once:
  "(arg \<in> expandedTypes param \<longrightarrow> expandArgRecursively sc arg param = (None, param))
   \<and> (arg \<notin> expandedTypes param \<longrightarrow>
        expandArgRecursively sc arg param =
          (case expandArgRecursively_types sc arg (remoteTypes param) False
                  (param\<lparr>expandedTypes := insert arg (expandedTypes param)\<rparr>) of
             ((Some e, typeFound), p) \<Rightarrow> (Some e, p)
           | ((None, typeFound), p) \<Rightarrow>
               if \<not> typeFound then (Some (Err (RemoteTypeNotFound arg)), p) else (None, p)))
   \<and> arg \<in> expandedTypes (snd (expandArgRecursively sc arg param))
   \<and> expandedTypes param \<subseteq> expandedTypes (snd (expandArgRecursively sc arg param))
   \<and> expandArgRecursively sc arg (snd (expandArgRecursively sc arg param))
       = (None, snd (expandArgRecursively sc arg param))
   \<and> (GqlType_NamedType (GqlField.Type f) = Inr n \<and> n \<in> expandedTypes param \<longrightarrow>
        expandArgRecursively_fields sc (f # rest) param
          = expandArgRecursively_fields sc rest param
        \<and> expandArgRecursively_inputFields sc (f # rest) param
          = expandArgRecursively_inputFields sc rest param)
   \<and> (arg \<notin> expandedTypes param \<and> remoteTypes param = ts1 @ t # ts2 \<and> Types.Name t = arg
        \<and> arg \<notin> Types.Name ` set ts1 \<and> arg \<notin> Types.Name ` set ts2
        \<and> (\<forall>f\<in>set (Types.Fields t). \<exists>ty. GqlField.Type f = Some ty \<and>
              (GqlType.Name ty \<in> sc \<or> GqlType_NamedType (Some ty) = Inr arg))
        \<and> (\<forall>f\<in>set (Types.InputFields t). \<exists>n. GqlType_NamedType (GqlField.Type f) = Inr n \<and>
              (n \<in> sc \<or> n = arg))
      \<longrightarrow> expandArgRecursively sc arg param =
            (None, param\<lparr>expandedTypes := insert arg (expandedTypes param),
                          typesToFields := AList.update arg (Types.Fields t @ Types.InputFields t)
                                             (typesToFields param)\<rparr>))"
proof -
  obtain e q where r: "expandArgRecursively sc arg param = (e, q)"
    by (cases "expandArgRecursively sc arg param")
  have marks: "arg \<in> expandedTypes q" by (rule expandArgRecursively_marks[OF r])
  have sub: "expandedTypes param \<subseteq> expandedTypes q"
    using expandArgRecursively_grows[OF r] by (rule grows_subset)
  have again: "expandArgRecursively sc arg q = (None, q)"
    using marks by (rule expandArgRecursively_visited)
  have closed: "expandArgRecursively sc arg param =
            (None, param\<lparr>expandedTypes := insert arg (expandedTypes param),
                          typesToFields := AList.update arg (Types.Fields t @ Types.InputFields t)
                                             (typesToFields param)\<rparr>)"
    if "arg \<notin> expandedTypes param" "remoteTypes param = ts1 @ t # ts2" "Types.Name t = arg"
      "arg \<notin> Types.Name ` set ts1" "arg \<notin> Types.Name ` set ts2"
      "\<forall>f\<in>set (Types.Fields t). \<exists>ty. GqlField.Type f = Some ty \<and>
              (GqlType.Name ty \<in> sc \<or> GqlType_NamedType (Some ty) = Inr arg)"
      "\<forall>f\<in>set (Types.InputFields t). \<exists>n. GqlType_NamedType (GqlField.Type f) = Inr n \<and>
              (n \<in> sc \<or> n = arg)"
    using that(1-5)
  proof (rule expandArgRecursively_closed)
    show "\<forall>f\<in>set (Types.Fields t). \<exists>ty. GqlField.Type f = Some ty \<and>
      (GqlType.Name ty \<in> sc \<or>
       (\<exists>n. GqlType_NamedType (Some ty) = Inr n \<and> n \<in> insert arg (expandedTypes param)))"
      using that(6) by blast
    show "\<forall>f\<in>set (Types.InputFields t). \<exists>n. GqlType_NamedType (GqlField.Type f) = Inr n \<and>
      (n \<in> sc \<or> n \<in> insert arg (expandedTypes param))"
      using that(7) by blast
  qed
  have unfold: "expandArgRecursively sc arg param =
          (case expandArgRecursively_types sc arg (remoteTypes param) False
                  (param\<lparr>expandedTypes := insert arg (expandedTypes param)\<rparr>) of
             ((Some e, typeFound), p) \<Rightarrow> (Some e, p)
           | ((None, typeFound), p) \<Rightarrow>
               if \<not> typeFound then (Some (Err (RemoteTypeNotFound arg)), p) else (None, p))"
    if "arg \<notin> expandedTypes param"
    using that by (simp add: expandArgRecursively.simps [of sc arg param] remoteTypes_def)
  have c1: "arg \<in> expandedTypes param \<longrightarrow> expandArgRecursively sc arg param = (None, param)"
    by (simp add: expandArgRecursively_visited)
  have c3: "arg \<in> expandedTypes (snd (expandArgRecursively sc arg param))"
    using marks r by simp
  have c4: "expandedTypes param \<subseteq> expandedTypes (snd (expandArgRecursively sc arg param))"
    using sub r by simp
  have c5: "expandArgRecursively sc arg (snd (expandArgRecursively sc arg param))
       = (None, snd (expandArgRecursively sc arg param))"
    using again r by simp
  have c6: "GqlType_NamedType (GqlField.Type f) = Inr n \<and> n \<in> expandedTypes param \<longrightarrow>
        expandArgRecursively_fields sc (f # rest) param
          = expandArgRecursively_fields sc rest param
        \<and> expandArgRecursively_inputFields sc (f # rest) param
          = expandArgRecursively_inputFields sc rest param"
    using expandArgRecursively_fields_pass[of f n param sc rest]
      expandArgRecursively_inputFields_pass[of f n param sc rest]
    by blast
  from c1 unfold c3 c4 c5 c6 closed show ?thesis by blast
qed

theorem expandArgRecursively_expands_once_witness:
  "expandArgRecursively builtinScalars ''Node'' (expandArgs_init (exampleSchema [nodeType]))
     = (None, \<lparr>expandedTypes = {''Node''}, introspectedSchema = exampleSchema [nodeType],
               typesToFields = [(''Node'', Types.Fields nodeType)]\<rparr>)
   \<and> expandArgRecursively builtinScalars ''Node''
       \<lparr>expandedTypes = {''Node''}, introspectedSchema = exampleSchema [nodeType],
        typesToFields = [(''Node'', Types.Fields nodeType)]\<rparr>
     = (None, \<lparr>expandedTypes = {''Node''}, introspectedSchema = exampleSchema [nodeType],
               typesToFields = [(''Node'', Types.Fields nodeType)]\<rparr>)
   \<and> expandArgRecursively_fields builtinScalars (Types.Fields nodeType)
       \<lparr>expandedTypes = {''Node''}, introspectedSchema = exampleSchema [nodeType],
        typesToFields = [(''Node'', Types.Fields nodeType)]\<rparr>
     = (None, \<lparr>expandedTypes = {''Node''}, introspectedSchema = exampleSchema [nodeType],
               typesToFields = [(''Node'', Types.Fields nodeType)]\<rparr>)"
  using expandArgRecursively_expands_once [where sc = builtinScalars and arg = "''Node''"
      and param = "expandArgs_init (exampleSchema [nodeType])"
      and f = "GqlField ''parent'' [] (Some (GqlType ''OBJECT'' ''Node'' None)) False None"
      and n = "''Node''" and rest = "[]" and ?ts1.0 = "[]" and t = nodeType and ?ts2.0 = "[]"]
    expandArgRecursively_expands_once [where sc = builtinScalars and arg = "''Node''"
      and param = "\<lparr>expandedTypes = {''Node''}, introspectedSchema = exampleSchema [nodeType],
        typesToFields = [(''Node'', Types.Fields nodeType)]\<rparr>"
      and f = "GqlField ''parent'' [] (Some (GqlType ''OBJECT'' ''Node'' None)) False None"
      and n = "''Node''" and rest = "[]" and ?ts1.0 = "[]" and t = nodeType and ?ts2.0 = "[]"]
  by (simp add: builtinScalars_def exampleSchema_def expandArgs_init_def nodeType_def
      remoteTypes_def lookupFields_def)

text \<open>
  Claim C3, at a field of a wrapped scalar type. The loop over the fields of a type
  looks the name of the outermost level of the field's type up in the scalars, which
  is empty for a wrapper: for the field \<open>title: String!\<close> of a type it recurses into
  \<open>String\<close>, and fails when the remote schema has no such type or expands it when
  there is one; for the same field among the input fields, where the named type is
  looked up, it does not recurse.
\<close>

theorem expandArgRecursively_fields_wrapped_scalar:
  "expandArgRecursively builtinScalars ''Post''
     (expandArgs_init (exampleSchema
        [Types.Types ''OBJECT'' ''Post''
           [GqlField ''title'' []
              (Some (GqlType ''NON_NULL'' [] (Some (GqlType ''SCALAR'' ''String'' None))))
              False None] []]))
   = (Some (Err (RemoteTypeNotFound ''String'')),
      \<lparr>expandedTypes = {''String'', ''Post''},
       introspectedSchema = exampleSchema
        [Types.Types ''OBJECT'' ''Post''
           [GqlField ''title'' []
              (Some (GqlType ''NON_NULL'' [] (Some (GqlType ''SCALAR'' ''String'' None))))
              False None] []],
       typesToFields = [(''Post'',
           [GqlField ''title'' []
              (Some (GqlType ''NON_NULL'' [] (Some (GqlType ''SCALAR'' ''String'' None))))
              False None])]\<rparr>)
   \<and> expandArgRecursively builtinScalars ''Post''
     (expandArgs_init (exampleSchema
        [Types.Types ''INPUT_OBJECT'' ''Post'' []
           [GqlField ''title'' []
              (Some (GqlType ''NON_NULL'' [] (Some (GqlType ''SCALAR'' ''String'' None))))
              False None]]))
   = (None,
      \<lparr>expandedTypes = {''Post''},
       introspectedSchema = exampleSchema
        [Types.Types ''INPUT_OBJECT'' ''Post'' []
           [GqlField ''title'' []
              (Some (GqlType ''NON_NULL'' [] (Some (GqlType ''SCALAR'' ''String'' None))))
              False None]],
       typesToFields = [(''Post'',
           [GqlField ''title'' []
              (Some (GqlType ''NON_NULL'' [] (Some (GqlType ''SCALAR'' ''String'' None))))
              False None])]\<rparr>)
   \<and> expandArgRecursively builtinScalars ''Post''
     (expandArgs_init (exampleSchema
        [Types.Types ''OBJECT'' ''Post''
           [GqlField ''title'' []
              (Some (GqlType ''NON_NULL'' [] (Some (GqlType ''SCALAR'' ''String'' None))))
              False None] [],
         Types.Types ''SCALAR'' ''String'' [] []]))
   = (None,
      \<lparr>expandedTypes = {''String'', ''Post''},
       introspectedSchema = exampleSchema
        [Types.Types ''OBJECT'' ''Post''
           [GqlField ''title'' []
              (Some (GqlType ''NON_NULL'' [] (Some (GqlType ''SCALAR'' ''String'' None))))
              False None] [],
         Types.Types ''SCALAR'' ''String'' [] []],
       typesToFields = [(''Post'',
           [GqlField ''title'' []
              (Some (GqlType ''NON_NULL'' [] (Some (GqlType ''SCALAR'' ''String'' None))))
              False None]), (''String'', [])]\<rparr>)"
  by (simp add: expandArgRecursively.simps builtinScalars_def exampleSchema_def
      expandArgs_init_def lookupFields_def)

section \<open>The validation\<close>

text \<open>
  Claim C1. When the introspection succeeds and the first selection is a field,
  \<^verbatim>\<open>validateRemoteGraphql\<close> returns what the five stages return when they run in the
  order root resolution, field lookup, return-type check, argument check, shape check
  and the first failure ends the run: one fault, that of the first stage that fails.
  In particular, when the return-type check fails, its error is the result whatever
  the argument check would say.
\<close>

theorem validateRemoteGraphql_stage_order:
  assumes "introspectRemoteSchema (url metadata) = Inr remoteIntrospection"
    and "SelectionSet (graphqlOpDef metadata) = Field givenQuery # others"
  shows "validateRemoteGraphql ord sc returnType introspectRemoteSchema metadata
           = stagedValidation ord sc returnType remoteIntrospection givenQuery metadata
       \<and> (rootResolution (Operation (graphqlOpDef metadata)) remoteIntrospection = Inr root
          \<and> fieldLookup (Operation (graphqlOpDef metadata)) root (ast_Field.Name givenQuery)
               remoteIntrospection = Inr remoteQuery
          \<and> returnTypeCheck (Operation (graphqlOpDef metadata)) (ast_Field.Name givenQuery)
               remoteQuery (parentField metadata) = Some f
          \<longrightarrow> validateRemoteGraphql ord sc returnType introspectRemoteSchema metadata = Inl f)"
proof -
  have eq: "validateRemoteGraphql ord sc returnType introspectRemoteSchema metadata
           = stagedValidation ord sc returnType remoteIntrospection givenQuery metadata"
    using assms
    by (auto simp: validateRemoteGraphql_def stagedValidation_def rootResolution_def
        fieldLookup_def returnTypeCheck_def argumentCheck_def shapeCheck_def Let_def
        split: option.splits sum.splits prod.splits)
  then show ?thesis by (simp add: stagedValidation_def)
qed

theorem validateRemoteGraphql_stage_order_witness:
  "validateRemoteGraphql (\<lambda>ks. ks) builtinScalars ''ret''
     (\<lambda>u. Inr (exampleSchema [exampleQuery [exampleId, exampleToken]
        (GqlType ''LIST'' [] (Some (GqlType ''OBJECT'' ''Post'' None))), examplePost]))
     (exampleMetadata ''Query'' ''query'' [exampleSelection])
   = Inl (Err (ReturnTypeMismatch ''query'' ''getPost'' ''[Post]'' ''Post''))
   \<and> argumentCheck (\<lambda>ks. ks) ''query'' (ast_Field ''getPost'' [ast_Argument ''id'' ''$id''])
       (parentField (exampleMetadata ''Query'' ''query'' [exampleSelection]))
       (parentType (exampleMetadata ''Query'' ''query'' [exampleSelection]))
       (GqlField ''getPost'' [exampleId, exampleToken]
          (Some (GqlType ''LIST'' [] (Some (GqlType ''OBJECT'' ''Post'' None)))) False None)
   = Some (Err (RequiredArgMissing ''query'' ''getPost'' ''token''))
   \<and> validateRemoteGraphql (\<lambda>ks. ks) builtinScalars ''ret''
     (\<lambda>u. Inr (exampleSchema [exampleQuery [exampleId]
        (GqlType ''OBJECT'' ''Post'' None), examplePost]))
     (exampleMetadata ''Query'' ''query'' [exampleSelection])
   = Inr ()"
  using validateRemoteGraphql_stage_order [where ord = "\<lambda>ks. ks" and sc = builtinScalars
      and returnType = "''ret''"
      and introspectRemoteSchema = "\<lambda>u. Inr (exampleSchema [exampleQuery [exampleId, exampleToken]
        (GqlType ''LIST'' [] (Some (GqlType ''OBJECT'' ''Post'' None))), examplePost])"
      and remoteIntrospection = "exampleSchema [exampleQuery [exampleId, exampleToken]
        (GqlType ''LIST'' [] (Some (GqlType ''OBJECT'' ''Post'' None))), examplePost]"
      and metadata = "exampleMetadata ''Query'' ''query'' [exampleSelection]"
      and givenQuery = "ast_Field ''getPost'' [ast_Argument ''id'' ''$id'']" and others = "[]"
      and root = "''Query''"
      and remoteQuery = "GqlField ''getPost'' [exampleId, exampleToken]
        (Some (GqlType ''LIST'' [] (Some (GqlType ''OBJECT'' ''Post'' None)))) False None"
      and f = "Err (ReturnTypeMismatch ''query'' ''getPost'' ''[Post]'' ''Post'')"]
    validateRemoteGraphql_stage_order [where ord = "\<lambda>ks. ks" and sc = builtinScalars
      and returnType = "''ret''"
      and introspectRemoteSchema = "\<lambda>u. Inr (exampleSchema [exampleQuery [exampleId]
        (GqlType ''OBJECT'' ''Post'' None), examplePost])"
      and remoteIntrospection = "exampleSchema [exampleQuery [exampleId]
        (GqlType ''OBJECT'' ''Post'' None), examplePost]"
      and metadata = "exampleMetadata ''Query'' ''query'' [exampleSelection]"
      and givenQuery = "ast_Field ''getPost'' [ast_Argument ''id'' ''$id'']" and others = "[]"]
  by (simp add: example_defs stagedValidation_def rootResolution_def fieldLookup_def
      returnTypeCheck_def argumentCheck_def shapeCheck_def getGivenQueryArgsAsMap_def
      getRemoteQueryArgsAsMap_def getFieldArgDefsAsMap_def rangeMap_def expandArgs_def
      expandArgRecursively.simps lookupFields_def FieldList_ForName_def)

text \<open>
  Claim C2, as the code has it. When the canonical strings of the remote and of the
  local return type differ, the validation fails with the return-type mismatch whose
  expected component is the string of the remote type and whose got component is the
  string of the local declaration: for a local \<open>Post\<close> and a remote \<open>[Post]\<close> the
  message says expected \<open>[Post]\<close>, got \<open>Post\<close>.
\<close>

theorem validateRemoteGraphql_return_type_mismatch:
  assumes "introspectRemoteSchema (url metadata) = Inr remoteIntrospection"
    and "Operation (graphqlOpDef metadata) = ''query'' \<or> Operation (graphqlOpDef metadata) = ''mutation''"
    and "SelectionSet (graphqlOpDef metadata) = Field givenQuery # others"
    and "findRemoteQuery (remoteQueryTypename (Operation (graphqlOpDef metadata)) remoteIntrospection)
           (ast_Field.Name givenQuery)
           (IntrospectionSchema.Types (Schema (Data remoteIntrospection))) = Some remoteQuery"
    and "GqlType_String (GqlField.Type remoteQuery)
           \<noteq> ast_Type_String (ast_FieldDefinition.Type (parentField metadata))"
  shows "validateRemoteGraphql ord sc returnType introspectRemoteSchema metadata
         = Inl (Err (ReturnTypeMismatch (Operation (graphqlOpDef metadata))
                       (ast_Field.Name givenQuery)
                       (GqlType_String (GqlField.Type remoteQuery))
                       (ast_Type_String (ast_FieldDefinition.Type (parentField metadata)))))
       \<and> error_message (ReturnTypeMismatch (Operation (graphqlOpDef metadata))
                       (ast_Field.Name givenQuery)
                       (GqlType_String (GqlField.Type remoteQuery))
                       (ast_Type_String (ast_FieldDefinition.Type (parentField metadata))))
         = ''given '' @ Operation (graphqlOpDef metadata) @ '': '' @ ast_Field.Name givenQuery
             @ '': return type mismatch; expected: ''
             @ GqlType_String (GqlField.Type remoteQuery) @ '', got: ''
             @ ast_Type_String (ast_FieldDefinition.Type (parentField metadata)) @ ''.''"
  using assms
  by (auto simp: validateRemoteGraphql_def remoteQueryTypename_def Let_def)

theorem validateRemoteGraphql_return_type_mismatch_witness:
  "validateRemoteGraphql (\<lambda>ks. ks) builtinScalars ''ret''
     (\<lambda>u. Inr (exampleSchema [exampleQuery [exampleId]
        (GqlType ''LIST'' [] (Some (GqlType ''OBJECT'' ''Post'' None))), examplePost]))
     (exampleMetadata ''Query'' ''query'' [exampleSelection])
   = Inl (Err (ReturnTypeMismatch ''query'' ''getPost'' ''[Post]'' ''Post''))
   \<and> error_message (ReturnTypeMismatch ''query'' ''getPost'' ''[Post]'' ''Post'')
     = ''given query: getPost: return type mismatch; expected: [Post], got: Post.''"
  using validateRemoteGraphql_return_type_mismatch [where ord = "\<lambda>ks. ks" and sc = builtinScalars
      and returnType = "''ret''"
      and introspectRemoteSchema = "\<lambda>u. Inr (exampleSchema [exampleQuery [exampleId]
        (GqlType ''LIST'' [] (Some (GqlType ''OBJECT'' ''Post'' None))), examplePost])"
      and remoteIntrospection = "exampleSchema [exampleQuery [exampleId]
        (GqlType ''LIST'' [] (Some (GqlType ''OBJECT'' ''Post'' None))), examplePost]"
      and metadata = "exampleMetadata ''Query'' ''query'' [exampleSelection]"
      and givenQuery = "ast_Field ''getPost'' [ast_Argument ''id'' ''$id'']" and others = "[]"
      and remoteQuery = "GqlField ''getPost'' [exampleId]
        (Some (GqlType ''LIST'' [] (Some (GqlType ''OBJECT'' ''Post'' None)))) False None"]
  by (simp add: example_defs remoteQueryTypename_def)

text \<open>
  The claim C2 as the spec states it, with the components the other way round, fails at
  that input.
\<close>

theorem validateRemoteGraphql_return_type_mismatch_counterexample:
  "validateRemoteGraphql (\<lambda>ks. ks) builtinScalars ''ret''
     (\<lambda>u. Inr (exampleSchema [exampleQuery [exampleId]
        (GqlType ''LIST'' [] (Some (GqlType ''OBJECT'' ''Post'' None))), examplePost]))
     (exampleMetadata ''Query'' ''query'' [exampleSelection])
   = Inl (Err (ReturnTypeMismatch ''query'' ''getPost'' ''[Post]'' ''Post''))
   \<and> validateRemoteGraphql (\<lambda>ks. ks) builtinScalars ''ret''
     (\<lambda>u. Inr (exampleSchema [exampleQuery [exampleId]
        (GqlType ''LIST'' [] (Some (GqlType ''OBJECT'' ''Post'' None))), examplePost]))
     (exampleMetadata ''Query'' ''query'' [exampleSelection])
   \<noteq> Inl (Err (ReturnTypeMismatch ''query'' ''getPost'' ''Post'' ''[Post]''))"
  by (simp add: validateRemoteGraphql_def example_defs Let_def)

text \<open>
  Claim C4, as the code has it. Let the resolved remote field have an argument whose
  type is a non-null wrapper, with any default value, and let the local selection
  supply no argument of that name. Then the validation never succeeds; and when the
  return types agree, the maps of the arguments are built, the check of the given
  arguments passes and the required arguments before this one are supplied, so that
  this argument is the first required one that is missing, the validation fails with
  the error that this required argument is missing.
\<close>

theorem validateRemoteGraphql_required_arg_missing:
  assumes intro: "introspectRemoteSchema (url metadata) = Inr remoteIntrospection"
    and op: "Operation (graphqlOpDef metadata) = ''query''
             \<or> Operation (graphqlOpDef metadata) = ''mutation''"
    and sel: "SelectionSet (graphqlOpDef metadata) = Field givenQuery # others"
    and found: "findRemoteQuery
           (remoteQueryTypename (Operation (graphqlOpDef metadata)) remoteIntrospection)
           (ast_Field.Name givenQuery)
           (IntrospectionSchema.Types (Schema (Data remoteIntrospection))) = Some remoteQuery"
    and arg: "Args.Args argName (Some (GqlType ''NON_NULL'' nm inner)) defaultValue
           \<in> set (GqlField.Args remoteQuery)"
    and notgiven: "argName \<notin> ast_Argument.Name ` set (ast_Field.Arguments givenQuery)"
  shows "validateRemoteGraphql ord sc returnType introspectRemoteSchema metadata \<noteq> Inr ()
       \<and> (GqlType_String (GqlField.Type remoteQuery)
              = ast_Type_String (ast_FieldDefinition.Type (parentField metadata))
          \<and> getGivenQueryArgsAsMap givenQuery (parentField metadata) (parentType metadata)
              = Inr (givenQryArgDefs, givenQryArgVals)
          \<and> getRemoteQueryArgsAsMap remoteQuery = Inr (remoteQryArgDefs, remoteQryRequiredArgs)
          \<and> checkGivenArgs (Operation (graphqlOpDef metadata)) (ast_Field.Name givenQuery)
               remoteQryArgDefs givenQryArgVals (rangeMap ord givenQryArgDefs) = None
          \<and> GqlField.Args remoteQuery
              = before @ Args.Args argName (Some (GqlType ''NON_NULL'' nm inner)) defaultValue
                  # after
          \<and> set (requiredNames before) \<subseteq> dom givenQryArgVals
          \<longrightarrow> validateRemoteGraphql ord sc returnType introspectRemoteSchema metadata
                = Inl (Err (RequiredArgMissing (Operation (graphqlOpDef metadata))
                              (ast_Field.Name givenQuery) argName)))"
proof (intro conjI impI)
  show "validateRemoteGraphql ord sc returnType introspectRemoteSchema metadata \<noteq> Inr ()"
  proof
    assume ok: "validateRemoteGraphql ord sc returnType introspectRemoteSchema metadata = Inr ()"
    from ok intro op sel found obtain d v m req where
      given: "getGivenQueryArgsAsMap givenQuery (parentField metadata) (parentType metadata)
              = Inr (d, v)"
      and remote: "getRemoteQueryArgsAsMap remoteQuery = Inr (m, req)"
      and required: "checkRequiredArgs (Operation (graphqlOpDef metadata))
              (ast_Field.Name givenQuery) v req = None"
      by (auto simp: validateRemoteGraphql_def remoteQueryTypename_def Let_def
          split: if_splits option.splits sum.splits prod.splits)
    from getRemoteQueryArgsAsMap_required[OF remote] requiredNames_member[OF arg]
    have "argName \<in> set req" by simp
    moreover from getGivenQueryArgsAsMap_dom[OF given] notgiven have "v argName = None"
      by auto
    ultimately show False using required checkRequiredArgs_missing by blast
  qed
next
  assume a: "GqlType_String (GqlField.Type remoteQuery)
              = ast_Type_String (ast_FieldDefinition.Type (parentField metadata))
          \<and> getGivenQueryArgsAsMap givenQuery (parentField metadata) (parentType metadata)
              = Inr (givenQryArgDefs, givenQryArgVals)
          \<and> getRemoteQueryArgsAsMap remoteQuery = Inr (remoteQryArgDefs, remoteQryRequiredArgs)
          \<and> checkGivenArgs (Operation (graphqlOpDef metadata)) (ast_Field.Name givenQuery)
               remoteQryArgDefs givenQryArgVals (rangeMap ord givenQryArgDefs) = None
          \<and> GqlField.Args remoteQuery
              = before @ Args.Args argName (Some (GqlType ''NON_NULL'' nm inner)) defaultValue
                  # after
          \<and> set (requiredNames before) \<subseteq> dom givenQryArgVals"
  then have remote: "getRemoteQueryArgsAsMap remoteQuery = Inr (remoteQryArgDefs, remoteQryRequiredArgs)"
    and given: "getGivenQueryArgsAsMap givenQuery (parentField metadata) (parentType metadata)
              = Inr (givenQryArgDefs, givenQryArgVals)"
    by simp_all
  from getRemoteQueryArgsAsMap_required[OF remote] a
  have req: "remoteQryRequiredArgs = requiredNames before @ argName # requiredNames after"
    by simp
  from getGivenQueryArgsAsMap_dom[OF given] notgiven have "givenQryArgVals argName = None"
    by auto
  with a have "checkRequiredArgs (Operation (graphqlOpDef metadata)) (ast_Field.Name givenQuery)
      givenQryArgVals remoteQryRequiredArgs
      = Some (Err (RequiredArgMissing (Operation (graphqlOpDef metadata))
                              (ast_Field.Name givenQuery) argName))"
    unfolding req by (intro checkRequiredArgs_first) simp_all
  with a intro op sel found
  show "validateRemoteGraphql ord sc returnType introspectRemoteSchema metadata
                = Inl (Err (RequiredArgMissing (Operation (graphqlOpDef metadata))
                              (ast_Field.Name givenQuery) argName))"
    by (auto simp: validateRemoteGraphql_def remoteQueryTypename_def Let_def)
qed

theorem validateRemoteGraphql_required_arg_missing_witness:
  "validateRemoteGraphql (\<lambda>ks. ks) builtinScalars ''ret''
     (\<lambda>u. Inr (exampleSchema [exampleQuery [exampleId, exampleToken]
        (GqlType ''OBJECT'' ''Post'' None), examplePost]))
     (exampleMetadata ''Query'' ''query'' [exampleSelection])
   = Inl (Err (RequiredArgMissing ''query'' ''getPost'' ''token''))
   \<and> DefaultValue exampleToken = Some ''abc''"
  using validateRemoteGraphql_required_arg_missing [where ord = "\<lambda>ks. ks" and sc = builtinScalars
      and returnType = "''ret''"
      and introspectRemoteSchema = "\<lambda>u. Inr (exampleSchema [exampleQuery [exampleId, exampleToken]
        (GqlType ''OBJECT'' ''Post'' None), examplePost])"
      and remoteIntrospection = "exampleSchema [exampleQuery [exampleId, exampleToken]
        (GqlType ''OBJECT'' ''Post'' None), examplePost]"
      and metadata = "exampleMetadata ''Query'' ''query'' [exampleSelection]"
      and givenQuery = "ast_Field ''getPost'' [ast_Argument ''id'' ''$id'']" and others = "[]"
      and remoteQuery = "GqlField ''getPost'' [exampleId, exampleToken]
        (Some (GqlType ''OBJECT'' ''Post'' None)) False None"
      and argName = "''token''" and nm = "[]"
      and inner = "Some (GqlType ''SCALAR'' ''String'' None)"
      and defaultValue = "Some ''abc''"
      and givenQryArgDefs = "[(''id'', Some (ast_ArgumentDefinition ''id'' (NonNull (Named ''ID''))))]"
      and givenQryArgVals = "[''id'' \<mapsto> ''$id'']"
      and remoteQryArgDefs = "[(''id'', exampleId), (''token'', exampleToken)]"
      and remoteQryRequiredArgs = "[''id'', ''token'']"
      and before = "[exampleId]" and after = "[]"]
  by (simp add: example_defs remoteQueryTypename_def getGivenQueryArgsAsMap_def
      getRemoteQueryArgsAsMap_def getFieldArgDefsAsMap_def rangeMap_def List.map_filter_def)

text \<open>
  The claim C4 as stated, the error for the name of every such argument, fails when the
  remote field requires \<open>id\<close> and \<open>token\<close> and the selection supplies neither: the
  first missing argument ends the validation and the error names \<open>id\<close> only.
\<close>

theorem validateRemoteGraphql_required_arg_missing_counterexample:
  "validateRemoteGraphql (\<lambda>ks. ks) builtinScalars ''ret''
     (\<lambda>u. Inr (exampleSchema [exampleQuery [exampleId, exampleToken]
        (GqlType ''OBJECT'' ''Post'' None), examplePost]))
     (exampleMetadata ''Query'' ''query'' [Field (ast_Field ''getPost'' [])])
   = Inl (Err (RequiredArgMissing ''query'' ''getPost'' ''id''))
   \<and> validateRemoteGraphql (\<lambda>ks. ks) builtinScalars ''ret''
     (\<lambda>u. Inr (exampleSchema [exampleQuery [exampleId, exampleToken]
        (GqlType ''OBJECT'' ''Post'' None), examplePost]))
     (exampleMetadata ''Query'' ''query'' [Field (ast_Field ''getPost'' [])])
   \<noteq> Inl (Err (RequiredArgMissing ''query'' ''getPost'' ''token''))"
  by (simp add: validateRemoteGraphql_def example_defs Let_def getGivenQueryArgsAsMap_def
      getRemoteQueryArgsAsMap_def getFieldArgDefsAsMap_def rangeMap_def)

text \<open>
  Claim C8. When the name of the local parent type is neither \<open>Query\<close> nor
  \<open>Mutation\<close>, both maps of the given arguments are empty whatever the selection
  supplies, and the check of the given arguments passes without looking at anything;
  then, when the validation gets as far as the arguments and every remote argument has
  a type, a remote argument with a non-null wrapper makes the validation fail with the
  error of a missing required argument, for the first required argument of the remote
  field, whether or not the selection supplies it.
\<close>

theorem validateRemoteGraphql_parent_not_root:
  assumes "ast_Definition.Name (parentType metadata) \<noteq> ''Query''"
    and "ast_Definition.Name (parentType metadata) \<noteq> ''Mutation''"
  shows "getGivenQueryArgsAsMap givenQuery (parentField metadata) (parentType metadata)
           = Inr ([], Map.empty)
       \<and> checkGivenArgs operationType name remoteQryArgDefs Map.empty (rangeMap ord []) = None
       \<and> (introspectRemoteSchema (url metadata) = Inr remoteIntrospection
          \<and> (Operation (graphqlOpDef metadata) = ''query''
              \<or> Operation (graphqlOpDef metadata) = ''mutation'')
          \<and> SelectionSet (graphqlOpDef metadata) = Field givenQuery # others
          \<and> findRemoteQuery
               (remoteQueryTypename (Operation (graphqlOpDef metadata)) remoteIntrospection)
               (ast_Field.Name givenQuery)
               (IntrospectionSchema.Types (Schema (Data remoteIntrospection))) = Some remoteQuery
          \<and> GqlType_String (GqlField.Type remoteQuery)
              = ast_Type_String (ast_FieldDefinition.Type (parentField metadata))
          \<and> (\<forall>a\<in>set (GqlField.Args remoteQuery). Args.Type a \<noteq> None)
          \<and> remoteArg \<in> set (GqlField.Args remoteQuery)
          \<and> Args.Type remoteArg = Some t \<and> GqlType.Kind t = ''NON_NULL''
          \<longrightarrow> validateRemoteGraphql ord sc returnType introspectRemoteSchema metadata
                = Inl (Err (RequiredArgMissing (Operation (graphqlOpDef metadata))
                              (ast_Field.Name givenQuery)
                              (hd (requiredNames (GqlField.Args remoteQuery))))))"
proof (intro conjI impI)
  show given: "getGivenQueryArgsAsMap givenQuery (parentField metadata) (parentType metadata)
           = Inr ([], Map.empty)"
    using assms by (simp add: getGivenQueryArgsAsMap_def)
  show "checkGivenArgs operationType name remoteQryArgDefs Map.empty (rangeMap ord []) = None"
    by (simp add: rangeMap_def List.map_filter_def)
  assume a: "introspectRemoteSchema (url metadata) = Inr remoteIntrospection
          \<and> (Operation (graphqlOpDef metadata) = ''query''
              \<or> Operation (graphqlOpDef metadata) = ''mutation'')
          \<and> SelectionSet (graphqlOpDef metadata) = Field givenQuery # others
          \<and> findRemoteQuery
               (remoteQueryTypename (Operation (graphqlOpDef metadata)) remoteIntrospection)
               (ast_Field.Name givenQuery)
               (IntrospectionSchema.Types (Schema (Data remoteIntrospection))) = Some remoteQuery
          \<and> GqlType_String (GqlField.Type remoteQuery)
              = ast_Type_String (ast_FieldDefinition.Type (parentField metadata))
          \<and> (\<forall>a\<in>set (GqlField.Args remoteQuery). Args.Type a \<noteq> None)
          \<and> remoteArg \<in> set (GqlField.Args remoteQuery)
          \<and> Args.Type remoteArg = Some t \<and> GqlType.Kind t = ''NON_NULL''"
  then obtain m where
    remote: "getRemoteQueryArgsAsMap remoteQuery = Inr (m, requiredNames (GqlField.Args remoteQuery))"
    using getRemoteQueryArgsAsMap_typed by blast
  from a have "Args.Name remoteArg \<in> set (requiredNames (GqlField.Args remoteQuery))"
    by (force simp: requiredNames_def)
  then obtain n ns where req: "requiredNames (GqlField.Args remoteQuery) = n # ns"
    by (cases "requiredNames (GqlField.Args remoteQuery)") auto
  with a given remote
  show "validateRemoteGraphql ord sc returnType introspectRemoteSchema metadata
                = Inl (Err (RequiredArgMissing (Operation (graphqlOpDef metadata))
                              (ast_Field.Name givenQuery)
                              (hd (requiredNames (GqlField.Args remoteQuery)))))"
    by (auto simp: validateRemoteGraphql_def remoteQueryTypename_def Let_def rangeMap_def
        List.map_filter_def)
qed

theorem validateRemoteGraphql_parent_not_root_witness:
  "getGivenQueryArgsAsMap (ast_Field ''getPost'' [ast_Argument ''id'' ''$id''])
       (parentField (exampleMetadata ''Author'' ''query'' [exampleSelection]))
       (parentType (exampleMetadata ''Author'' ''query'' [exampleSelection]))
     = Inr ([], Map.empty)
   \<and> validateRemoteGraphql (\<lambda>ks. ks) builtinScalars ''ret''
     (\<lambda>u. Inr (exampleSchema [exampleQuery [exampleId]
        (GqlType ''OBJECT'' ''Post'' None), examplePost]))
     (exampleMetadata ''Author'' ''query'' [exampleSelection])
   = Inl (Err (RequiredArgMissing ''query'' ''getPost'' ''id''))"
  using validateRemoteGraphql_parent_not_root [where ord = "\<lambda>ks. ks" and sc = builtinScalars
      and returnType = "''ret''"
      and introspectRemoteSchema = "\<lambda>u. Inr (exampleSchema [exampleQuery [exampleId]
        (GqlType ''OBJECT'' ''Post'' None), examplePost])"
      and remoteIntrospection = "exampleSchema [exampleQuery [exampleId]
        (GqlType ''OBJECT'' ''Post'' None), examplePost]"
      and metadata = "exampleMetadata ''Author'' ''query'' [exampleSelection]"
      and givenQuery = "ast_Field ''getPost'' [ast_Argument ''id'' ''$id'']" and others = "[]"
      and remoteQuery = "GqlField ''getPost'' [exampleId]
        (Some (GqlType ''OBJECT'' ''Post'' None)) False None"
      and remoteArg = exampleId
      and t = "GqlType ''NON_NULL'' [] (Some (GqlType ''SCALAR'' ''ID'' None))"
      and operationType = "''query''" and name = "''getPost''" and remoteQryArgDefs = "[]"]
  by (simp add: example_defs remoteQueryTypename_def requiredNames_def)

text \<open>
  Claim C9, as the code has it. An error of the introspection and an operation that is
  neither a query nor a mutation are returned as errors before the first selection is
  read. After them, the read of the first selection is unguarded: an empty selection
  set panics with an index out of range, a first selection that is not a field panics
  in the type assertion, and with a field as the first selection neither panic is the
  result.
\<close>

theorem validateRemoteGraphql_first_selection:
  "(introspectRemoteSchema (url metadata) = Inl err \<longrightarrow>
      validateRemoteGraphql ord sc returnType introspectRemoteSchema metadata = Inl (Err err))
   \<and> (introspectRemoteSchema (url metadata) = Inr remoteIntrospection
        \<and> Operation (graphqlOpDef metadata) \<noteq> ''query''
        \<and> Operation (graphqlOpDef metadata) \<noteq> ''mutation'' \<longrightarrow>
      validateRemoteGraphql ord sc returnType introspectRemoteSchema metadata
        = Inl (Err (OperationNotAllowed (Operation (graphqlOpDef metadata)))))
   \<and> (introspectRemoteSchema (url metadata) = Inr remoteIntrospection
        \<and> (Operation (graphqlOpDef metadata) = ''query''
            \<or> Operation (graphqlOpDef metadata) = ''mutation'') \<longrightarrow>
      (SelectionSet (graphqlOpDef metadata) = [] \<longrightarrow>
         validateRemoteGraphql ord sc returnType introspectRemoteSchema metadata
           = Inl (Panic IndexOutOfRange))
      \<and> (SelectionSet (graphqlOpDef metadata) = selection # others
           \<and> (\<forall>givenQuery. selection \<noteq> Field givenQuery) \<longrightarrow>
         validateRemoteGraphql ord sc returnType introspectRemoteSchema metadata
           = Inl (Panic InterfaceConversion))
      \<and> (SelectionSet (graphqlOpDef metadata) = Field givenQuery # others \<longrightarrow>
         validateRemoteGraphql ord sc returnType introspectRemoteSchema metadata
           \<noteq> Inl (Panic IndexOutOfRange)
         \<and> validateRemoteGraphql ord sc returnType introspectRemoteSchema metadata
           \<noteq> Inl (Panic InterfaceConversion)))"
proof -
  have later: "validateRemoteGraphql ord sc returnType introspectRemoteSchema metadata
           \<noteq> Inl (Panic IndexOutOfRange)
         \<and> validateRemoteGraphql ord sc returnType introspectRemoteSchema metadata
           \<noteq> Inl (Panic InterfaceConversion)"
    if "introspectRemoteSchema (url metadata) = Inr remoteIntrospection"
      "SelectionSet (graphqlOpDef metadata) = Field givenQuery # others"
    using validateRemoteGraphql_later_fault[where introspectRemoteSchema = introspectRemoteSchema
        and metadata = metadata and ord = ord and sc = sc and returnType = returnType, OF that]
    by (auto simp: laterFault_def)
  have nofield: "validateRemoteGraphql ord sc returnType introspectRemoteSchema metadata
           = Inl (Panic InterfaceConversion)"
    if "introspectRemoteSchema (url metadata) = Inr remoteIntrospection"
      "Operation (graphqlOpDef metadata) = ''query''
            \<or> Operation (graphqlOpDef metadata) = ''mutation''"
      "SelectionSet (graphqlOpDef metadata) = selection # others"
      "\<forall>givenQuery. selection \<noteq> Field givenQuery"
    using that by (cases selection) (auto simp: validateRemoteGraphql_def Let_def)
  have empty: "validateRemoteGraphql ord sc returnType introspectRemoteSchema metadata
           = Inl (Panic IndexOutOfRange)"
    if "introspectRemoteSchema (url metadata) = Inr remoteIntrospection"
      "Operation (graphqlOpDef metadata) = ''query''
            \<or> Operation (graphqlOpDef metadata) = ''mutation''"
      "SelectionSet (graphqlOpDef metadata) = []"
    using that by (auto simp: validateRemoteGraphql_def Let_def)
  have err: "validateRemoteGraphql ord sc returnType introspectRemoteSchema metadata = Inl (Err err)"
    if "introspectRemoteSchema (url metadata) = Inl err"
    using that by (simp add: validateRemoteGraphql_def)
  have op: "validateRemoteGraphql ord sc returnType introspectRemoteSchema metadata
        = Inl (Err (OperationNotAllowed (Operation (graphqlOpDef metadata))))"
    if "introspectRemoteSchema (url metadata) = Inr remoteIntrospection"
      "Operation (graphqlOpDef metadata) \<noteq> ''query''"
      "Operation (graphqlOpDef metadata) \<noteq> ''mutation''"
    using that by (simp add: validateRemoteGraphql_def Let_def)
  from later nofield empty err op show ?thesis by blast
qed

theorem validateRemoteGraphql_first_selection_witness:
  "validateRemoteGraphql (\<lambda>ks. ks) builtinScalars ''ret''
     (\<lambda>u. Inr (exampleSchema [examplePost])) (exampleMetadata ''Query'' ''query'' [])
   = Inl (Panic IndexOutOfRange)
   \<and> validateRemoteGraphql (\<lambda>ks. ks) builtinScalars ''ret''
     (\<lambda>u. Inr (exampleSchema [examplePost]))
     (exampleMetadata ''Query'' ''query'' [FragmentSpread ''postFields''])
   = Inl (Panic InterfaceConversion)
   \<and> validateRemoteGraphql (\<lambda>ks. ks) builtinScalars ''ret''
     (\<lambda>u. Inr (exampleSchema [examplePost]))
     (exampleMetadata ''Query'' ''subscription'' [])
   = Inl (Err (OperationNotAllowed ''subscription''))
   \<and> validateRemoteGraphql (\<lambda>ks. ks) builtinScalars ''ret''
     (\<lambda>u. Inl (IntrospectionError ''connection refused''))
     (exampleMetadata ''Query'' ''query'' [])
   = Inl (Err (IntrospectionError ''connection refused''))"
  using validateRemoteGraphql_first_selection [where ord = "\<lambda>ks. ks" and sc = builtinScalars
      and returnType = "''ret''"
      and introspectRemoteSchema = "\<lambda>u. Inr (exampleSchema [examplePost])"
      and remoteIntrospection = "exampleSchema [examplePost]"
      and metadata = "exampleMetadata ''Query'' ''query'' []"]
    validateRemoteGraphql_first_selection [where ord = "\<lambda>ks. ks" and sc = builtinScalars
      and returnType = "''ret''"
      and introspectRemoteSchema = "\<lambda>u. Inr (exampleSchema [examplePost])"
      and remoteIntrospection = "exampleSchema [examplePost]"
      and metadata = "exampleMetadata ''Query'' ''query'' [FragmentSpread ''postFields'']"
      and selection = "FragmentSpread ''postFields''" and others = "[]"]
    validateRemoteGraphql_first_selection [where ord = "\<lambda>ks. ks" and sc = builtinScalars
      and returnType = "''ret''"
      and introspectRemoteSchema = "\<lambda>u. Inr (exampleSchema [examplePost])"
      and remoteIntrospection = "exampleSchema [examplePost]"
      and metadata = "exampleMetadata ''Query'' ''subscription'' []"]
    validateRemoteGraphql_first_selection [where ord = "\<lambda>ks. ks" and sc = builtinScalars
      and returnType = "''ret''"
      and introspectRemoteSchema = "\<lambda>u. Inl (IntrospectionError ''connection refused'')"
      and err = "IntrospectionError ''connection refused''"
      and metadata = "exampleMetadata ''Query'' ''query'' []"]
  by (simp add: exampleMetadata_def)

text \<open>
  The claim C9 as stated, an access out of bounds for every input whose selection set
  is empty or does not start with a field, fails at a selection set that starts with a
  fragment spread: the index is in range and the type assertion panics.
\<close>

theorem validateRemoteGraphql_first_selection_counterexample:
  "validateRemoteGraphql (\<lambda>ks. ks) builtinScalars ''ret''
     (\<lambda>u. Inr (exampleSchema [examplePost]))
     (exampleMetadata ''Query'' ''query'' [FragmentSpread ''postFields''])
   = Inl (Panic InterfaceConversion)
   \<and> validateRemoteGraphql (\<lambda>ks. ks) builtinScalars ''ret''
     (\<lambda>u. Inr (exampleSchema [examplePost]))
     (exampleMetadata ''Query'' ''query'' [FragmentSpread ''postFields''])
   \<noteq> Inl (Panic IndexOutOfRange)"
  by (simp add: validateRemoteGraphql_def exampleMetadata_def Let_def)

end
